theory Spec2Isabelle
  imports Main "HOL-Library.FSet"
begin

section \<open>Matchmaking coordinator (backend/cmd/main.go)\<close>

text \<open>
  The coordinator keeps all of its state in Redis. Three families of keys matter for
  matching: the profile blobs \<^verbatim>\<open>user:<id>\<close>, the set \<^verbatim>\<open>available_users\<close> and the
  room pointers \<^verbatim>\<open>user_room:<id>\<close>. The three key patterns never collide, so the
  registry is a record of three independent components.  Redis commands are taken to
  succeed (the handlers ignore most command errors); a \<^verbatim>\<open>GET\<close> of a missing key is
  the \<open>None\<close> of the map. Key expiry (the 24h TTL) is not modelled.
\<close>

record User =
  Name :: string
  Language :: string
  CefrLevel :: string
  Age :: int
  Gender :: string
  Interests :: "string list"
  Topics :: "string list"
  CreatedAt :: int

record registry =
  users :: "string \<rightharpoonup> User"
  available_users :: "string set"
  user_room :: "string \<rightharpoonup> string"

record MatchResponse =
  Matched :: bool
  UserID :: string
  RoomID_resp :: string
  Reason :: string

text \<open>What a handler writes to the HTTP response: \<^verbatim>\<open>http.Error\<close> or \<^verbatim>\<open>respondJSON\<close>.\<close>

datatype response = HttpError string nat | Json MatchResponse

subsection \<open>Redis commands\<close>

text \<open>\<^verbatim>\<open>SREM key m1 m2 ...\<close>: removes the members, answers how many were present.\<close>

definition srem :: "string list \<Rightarrow> registry \<Rightarrow> nat \<times> registry" where
  "srem ms rdb =
     (card (set ms \<inter> available_users rdb),
      rdb\<lparr>available_users := available_users rdb - set ms\<rparr>)"

definition sadd :: "string \<Rightarrow> registry \<Rightarrow> registry" where
  "sadd m rdb = rdb\<lparr>available_users := insert m (available_users rdb)\<rparr>"

definition sismember :: "string \<Rightarrow> registry \<Rightarrow> bool" where
  "sismember m rdb = (m \<in> available_users rdb)"

definition set_room :: "string \<Rightarrow> string \<Rightarrow> registry \<Rightarrow> registry" where
  "set_room uid room rdb = rdb\<lparr>user_room := (user_room rdb)(uid \<mapsto> room)\<rparr>"

text \<open>
  \<^verbatim>\<open>POST /api/users\<close> for a body whose \<^verbatim>\<open>id\<close> is not blank: the profile is stored
  and the identifier marked available (the handler also stamps \<^verbatim>\<open>CreatedAt\<close> and
  tracks the identifier in the set \<^verbatim>\<open>users\<close>, which no matcher reads).
\<close>

definition post_user :: "string \<Rightarrow> User \<Rightarrow> registry \<Rightarrow> registry" where
  "post_user uid u rdb = sadd uid (rdb\<lparr>users := (users rdb)(uid \<mapsto> u)\<rparr>)"

text \<open>
  The recurring test \<^verbatim>\<open>room, err := rdb.Get(ctx, "user_room:"+id).Result();
  err == nil && room != ""\<close>: the room of \<open>id\<close> when the test passes.
\<close>

definition assigned_room :: "registry \<Rightarrow> string \<Rightarrow> string option" where
  "assigned_room rdb uid =
     (case user_room rdb uid of
        None \<Rightarrow> None
      | Some room \<Rightarrow> if room \<noteq> '''' then Some room else None)"

subsection \<open>Tag sets\<close>

fun ageBucket :: "int \<Rightarrow> string" where
  "ageBucket age =
     (if age < 18 then ''u18''
      else if age \<le> 25 then ''18-25''
      else if age \<le> 35 then ''26-35''
      else if age \<le> 45 then ''36-45''
      else if age \<le> 55 then ''46-55''
      else ''55+'')"

text \<open>
  \<open>norm\<close> stands for \<^verbatim>\<open>strings.ToLower(strings.TrimSpace(_))\<close> of the Go standard
  library, which is not part of the repository; the tag set is built for any such function.
\<close>

definition userTags :: "(string \<Rightarrow> string) \<Rightarrow> User \<Rightarrow> string set" where
  "userTags norm u =
     (if Language u \<noteq> '''' then {''lang:'' @ Language u} else {})
     \<union> (if CefrLevel u \<noteq> '''' then {''cefr:'' @ CefrLevel u} else {})
     \<union> (if Gender u \<noteq> '''' then {''gender:'' @ Gender u} else {})
     \<union> (\<lambda>it. ''interest:'' @ norm it) ` set (Interests u)
     \<union> (\<lambda>tp. ''topic:'' @ norm tp) ` set (Topics u)
     \<union> (if Age u > 0 then {''age:'' @ ageBucket (Age u)} else {})"

definition intersectionScore :: "string set \<Rightarrow> string set \<Rightarrow> int" where
  "intersectionScore a b = int (card (a \<inter> b))"

subsection \<open>On-demand random match: \<^verbatim>\<open>GET /api/match/random\<close>\<close>

text \<open>The scan \<^verbatim>\<open>for _, c := range candidates { if c != requesterID { matched = c; break } }\<close>
  with \<^verbatim>\<open>matched\<close> initially the empty string.\<close>

fun first_other :: "string list \<Rightarrow> string \<Rightarrow> string" where
  "first_other [] requesterID = ''''"
| "first_other (c # cs) requesterID =
     (if c \<noteq> requesterID then c else first_other cs requesterID)"

text \<open>
  \<open>uuid\<close> is the value \<^verbatim>\<open>uuid.NewString()\<close> would return, \<open>candidates\<close> the reply of
  \<^verbatim>\<open>SMEMBERS available_users\<close> (Redis fixes no order, and under concurrency the reply
  may be older than the registry the later commands see).
\<close>

definition match_random ::
  "string \<Rightarrow> string list \<Rightarrow> string \<Rightarrow> registry \<Rightarrow> response \<times> registry" where
  "match_random uuid candidates requesterID rdb =
     (if requesterID = '''' then (HttpError ''user_id required'' 400, rdb)
      else case assigned_room rdb requesterID of
        Some existingRoom \<Rightarrow>
          (Json \<lparr>Matched = True, UserID = '''', RoomID_resp = existingRoom, Reason = ''''\<rparr>, rdb)
      | None \<Rightarrow>
          (let matched = first_other candidates requesterID in
           if matched = '''' then
             (Json \<lparr>Matched = False, UserID = '''', RoomID_resp = '''',
                    Reason = ''no users available''\<rparr>, rdb)
           else case assigned_room rdb matched of
             Some matchedRoom \<Rightarrow>
               (Json \<lparr>Matched = True, UserID = matched, RoomID_resp = matchedRoom, Reason = ''''\<rparr>,
                set_room requesterID matchedRoom (snd (srem [requesterID] rdb)))
           | None \<Rightarrow>
               (let roomID = ''room_'' @ uuid in
                (Json \<lparr>Matched = True, UserID = matched, RoomID_resp = roomID, Reason = ''''\<rparr>,
                 set_room matched roomID
                   (set_room requesterID roomID (snd (srem [requesterID, matched] rdb)))))))"

subsection \<open>Similarity match: \<^verbatim>\<open>GET /api/match/similar\<close>\<close>

text \<open>The scoring loop, with its two loop variables \<^verbatim>\<open>bestID\<close> and \<^verbatim>\<open>bestScore\<close>.\<close>

fun best_candidate ::
  "(string \<Rightarrow> string) \<Rightarrow> registry \<Rightarrow> string \<Rightarrow> string set \<Rightarrow> string list
     \<Rightarrow> string \<times> int \<Rightarrow> string \<times> int" where
  "best_candidate norm rdb requesterID reqTags [] best = best"
| "best_candidate norm rdb requesterID reqTags (c # cs) (bestID, bestScore) =
     (if c = requesterID then
        best_candidate norm rdb requesterID reqTags cs (bestID, bestScore)
      else case users rdb c of
        None \<Rightarrow> best_candidate norm rdb requesterID reqTags cs (bestID, bestScore)
      | Some u \<Rightarrow>
          (let score = intersectionScore reqTags (userTags norm u) in
           if score > bestScore then
             best_candidate norm rdb requesterID reqTags cs (c, score)
           else best_candidate norm rdb requesterID reqTags cs (bestID, bestScore)))"

definition match_similar ::
  "(string \<Rightarrow> string) \<Rightarrow> string \<Rightarrow> string list \<Rightarrow> string \<Rightarrow> registry
     \<Rightarrow> response \<times> registry" where
  "match_similar norm uuid candidates requesterID rdb =
     (if requesterID = '''' then (HttpError ''user_id required'' 400, rdb)
      else case users rdb requesterID of
        None \<Rightarrow> (HttpError ''user not found'' 404, rdb)
      | Some reqUser \<Rightarrow>
          (let reqTags = userTags norm reqUser;
               bestID = fst (best_candidate norm rdb requesterID reqTags candidates ('''', 0))
           in
           if bestID = '''' then
             (Json \<lparr>Matched = False, UserID = '''', RoomID_resp = '''',
                    Reason = ''no similar users available''\<rparr>, rdb)
           else
             (let roomID = ''room_'' @ uuid in
              (Json \<lparr>Matched = True, UserID = bestID, RoomID_resp = roomID, Reason = ''''\<rparr>,
               snd (srem [requesterID, bestID] rdb)))))"

subsection \<open>Background sweep: one tick of \<^verbatim>\<open>startMatchingService\<close>\<close>

datatype sweep_result =
    Skipped
  | RemovalShort nat
  | Paired string string string

text \<open>
  The tick up to and including the two \<^verbatim>\<open>SISMEMBER\<close> re-checks: the pair it goes on
  with, if any.
\<close>

definition sweep_validate :: "string list \<Rightarrow> registry \<Rightarrow> (string \<times> string) option" where
  "sweep_validate candidates rdb =
     (case candidates of
        user1 # user2 # _ \<Rightarrow>
          (let isUser1Available = sismember user1 rdb;
               isUser2Available = sismember user2 rdb
           in if \<not> isUser1Available \<or> \<not> isUser2Available then None
              else Some (user1, user2))
      | _ \<Rightarrow> None)"

text \<open>
  The rest of the tick, from \<^verbatim>\<open>SREM\<close> on. It is a function of the registry it finds:
  other handlers may have run since the re-checks.
\<close>

definition sweep_commit ::
  "string \<Rightarrow> string \<Rightarrow> string \<Rightarrow> registry \<Rightarrow> sweep_result \<times> registry" where
  "sweep_commit uuid user1 user2 rdb =
     (let roomID = ''room_'' @ uuid;
          removed = fst (srem [user1, user2] rdb);
          rdb1 = snd (srem [user1, user2] rdb)
      in
      if removed \<noteq> 2 then
        (if removed = 1 then
           (let isUser1StillAvailable = sismember user1 rdb1 in
            if isUser1StillAvailable then (RemovalShort removed, sadd user2 rdb1)
            else (RemovalShort removed, sadd user1 rdb1))
         else (RemovalShort removed, rdb1))
      else
        (Paired user1 user2 roomID,
         set_room user2 roomID (set_room user1 roomID rdb1)))"

definition sweep_tick :: "string \<Rightarrow> string list \<Rightarrow> registry \<Rightarrow> sweep_result \<times> registry" where
  "sweep_tick uuid candidates rdb =
     (case sweep_validate candidates rdb of
        None \<Rightarrow> (Skipped, rdb)
      | Some (user1, user2) \<Rightarrow> sweep_commit uuid user1 user2 rdb)"

section \<open>Signaling broker (backend/WebSocket/webrtc_signaling.go)\<close>

type_synonym MessageType = string

definition JoinRoom :: MessageType where "JoinRoom = ''join_room''"
definition LeaveRoom :: MessageType where "LeaveRoom = ''leave_room''"
definition Offer :: MessageType where "Offer = ''offer''"
definition Answer :: MessageType where "Answer = ''answer''"
definition IceCandidate :: MessageType where "IceCandidate = ''ice_candidate''"
definition RoomJoined :: MessageType where "RoomJoined = ''room_joined''"
definition RoomLeft :: MessageType where "RoomLeft = ''room_left''"
definition PeerJoined :: MessageType where "PeerJoined = ''peer_joined''"
definition PeerLeft :: MessageType where "PeerLeft = ''peer_left''"
definition Error :: MessageType where "Error = ''error''"

text \<open>
  The \<^verbatim>\<open>Data interface{}\<close> field of an envelope inside the broker: the Go value
  \<^verbatim>\<open>json.Unmarshal\<close> made of what the client sent, or one of the small objects the
  broker builds itself. \<open>JNull\<close> is Go's \<^verbatim>\<open>nil\<close>. Every JSON number is decoded to a
  \<^verbatim>\<open>float64\<close>, so a number on the wire that is not a \<^verbatim>\<open>float64\<close> is already
  rounded when it gets here; the broker never looks into the value, and the type of
  \<^verbatim>\<open>float64\<close> values is left abstract. Decoding and encoding are the standard
  library's and are not modelled: an envelope here is the decoded struct, and what a
  client reads is \<^verbatim>\<open>json.Marshal\<close> of the struct that was queued for it.
\<close>

typedecl float64

datatype json =
    JNull
  | JBool bool
  | JNumber float64
  | JString string
  | JArray "json list"
  | JObject "(string \<times> json) list"

record SignalingMessage =
  Type :: MessageType
  RoomID_msg :: string
  PeerID :: string
  Data :: json
  Error_msg :: string

text \<open>
  A \<^verbatim>\<open>*Peer\<close> is addressed by its identifier (\<^verbatim>\<open>generatePeerID\<close> never repeats
  one), so the record holds the mutable fields only. \<open>SendChan\<close> is the content of the
  buffered channel, oldest first (each envelope stands for its \<^verbatim>\<open>json.Marshal\<close>
  bytes), and \<open>Closed\<close> says whether \<^verbatim>\<open>close(peer.SendChan)\<close> has run. \<open>SendLog\<close> is a
  history variable: every envelope ever handed to \<^verbatim>\<open>sendToPeer\<close> for this peer, in
  order, whatever became of it (the source logs each such call before it tries the
  channel).
\<close>

record Peer =
  RoomID :: string
  SendChan :: "SignalingMessage list"
  Closed :: bool
  SendLog :: "SignalingMessage list"

record Room =
  ID :: string
  Peers :: "string fset"

text \<open>
  The room table, and the heap of \<^verbatim>\<open>Peer\<close> objects the rooms and the connection
  goroutines point into. \<open>Panicked\<close> is set when a goroutine of the broker panics:
  none of them recovers, so the process ends there and the other fields no longer
  mean anything. Handlers run one at a time: the model is the sequential behaviour of
  the broker, every handler call atomic.
\<close>

record SignalingServer =
  Rooms :: "string \<rightharpoonup> Room"
  Heap :: "string \<Rightarrow> Peer"
  Panicked :: bool

text \<open>A peer as \<^verbatim>\<open>HandleWebRTCConnection\<close> creates it; its channel holds up to 100 messages.\<close>

definition new_peer :: Peer where
  "new_peer = \<lparr>RoomID = '''', SendChan = [], Closed = False, SendLog = []\<rparr>"

definition SendChan_cap :: nat where
  "SendChan_cap = 100"

definition NewSignalingServer :: SignalingServer where
  "NewSignalingServer = \<lparr>Rooms = Map.empty, Heap = (\<lambda>_. new_peer), Panicked = False\<rparr>"

subsection \<open>Sending\<close>

text \<open>
  The statement \<^verbatim>\<open>select { case peer.SendChan <- messageBytes: default: }\<close>. On an open
  channel the message goes in when there is room and the \<^verbatim>\<open>default\<close> branch drops it
  otherwise. On a closed channel the send case is ready and panics
  (``send on closed channel''), whatever the comment in the \<^verbatim>\<open>default\<close> branch says:
  that is the \<open>None\<close>.
\<close>

definition offer_chan :: "SignalingMessage \<Rightarrow> Peer \<Rightarrow> Peer option" where
  "offer_chan msg peer =
     (if Closed peer then None
      else if length (SendChan peer) < SendChan_cap
      then Some (peer\<lparr>SendChan := SendChan peer @ [msg]\<rparr>)
      else Some peer)"

text \<open>
  \<^verbatim>\<open>sendToPeer\<close>: the log line, then the \<^verbatim>\<open>select\<close>. \<^verbatim>\<open>json.Marshal\<close> does not
  fail on these envelopes (their payloads came out of \<^verbatim>\<open>json.Unmarshal\<close> or are built
  from strings and booleans).
\<close>

definition sendToPeer :: "SignalingServer \<Rightarrow> string \<Rightarrow> SignalingMessage \<Rightarrow> SignalingServer" where
  "sendToPeer s peer msg =
     (let logged = (Heap s peer)\<lparr>SendLog := SendLog (Heap s peer) @ [msg]\<rparr> in
      case offer_chan msg logged of
        None \<Rightarrow> s\<lparr>Heap := (Heap s)(peer := logged), Panicked := True\<rparr>
      | Some sent \<Rightarrow> s\<lparr>Heap := (Heap s)(peer := sent)\<rparr>)"

definition sendError :: "SignalingServer \<Rightarrow> string \<Rightarrow> string \<Rightarrow> SignalingServer" where
  "sendError s peer errorMsg =
     sendToPeer s peer
       \<lparr>Type = Error, RoomID_msg = '''', PeerID = '''', Data = JNull, Error_msg = errorMsg\<rparr>"

text \<open>
  The loop \<^verbatim>\<open>for peerID, p := range room.Peers { if peerID != exclude { s.sendToPeer(p, &msg) } }\<close>.
  Each iteration touches the heap cell of its own peer only, so among open channels
  the order Go picks does not matter. If the channel of one of the peers is closed the
  loop panics when it gets to that peer; which of the others it has served by then
  depends on the order, and the process is gone right after: the model sets the flag
  and leaves the heap as the loop found it.
\<close>

definition send_to_others ::
  "SignalingServer \<Rightarrow> Room \<Rightarrow> string \<Rightarrow> SignalingMessage \<Rightarrow> SignalingServer" where
  "send_to_others s room exclude msg =
     (if fBex (Peers room) (\<lambda>peerID. peerID \<noteq> exclude \<and> Closed (Heap s peerID))
      then s\<lparr>Panicked := True\<rparr>
      else s\<lparr>Heap := (\<lambda>peerID. if peerID |\<in>| Peers room \<and> peerID \<noteq> exclude
                               then Heap (sendToPeer s peerID msg) peerID
                               else Heap s peerID)\<rparr>)"

definition notifyPeersInRoom ::
  "SignalingServer \<Rightarrow> Room \<Rightarrow> string \<Rightarrow> MessageType \<Rightarrow> json \<Rightarrow> SignalingServer" where
  "notifyPeersInRoom s room excludePeerID msgType data =
     send_to_others s room excludePeerID
       \<lparr>Type = msgType, RoomID_msg = '''', PeerID = '''', Data = data, Error_msg = ''''\<rparr>"

subsection \<open>Handlers\<close>

text \<open>
  A handler that has panicked does not get to its next statement: after each send the
  rest runs only if the flag is not set.
\<close>

definition handleJoinRoom :: "SignalingServer \<Rightarrow> string \<Rightarrow> SignalingMessage \<Rightarrow> SignalingServer" where
  "handleJoinRoom s peer msg =
     (let room = (case Rooms s (RoomID_msg msg) of
                    None \<Rightarrow> \<lparr>ID = RoomID_msg msg, Peers = {||}\<rparr>
                  | Some room \<Rightarrow> room);
          s1 = s\<lparr>Rooms := (Rooms s)(RoomID_msg msg \<mapsto> room)\<rparr>;
          peerCount = fcard (Peers room)
      in
      if peerCount \<ge> 2 then sendError s1 peer ''Room is full''
      else
        (let isInitiator = (peerCount = 0);
             room' = room\<lparr>Peers := finsert peer (Peers room)\<rparr>;
             s2 = s1\<lparr>Rooms := (Rooms s1)(RoomID_msg msg \<mapsto> room'),
                     Heap := (Heap s1)(peer := (Heap s1 peer)\<lparr>RoomID := RoomID_msg msg\<rparr>)\<rparr>;
             s3 = sendToPeer s2 peer
                    \<lparr>Type = RoomJoined, RoomID_msg = RoomID_msg msg, PeerID = '''',
                     Data = JObject [(''peer_id'', JString peer),
                                     (''room_id'', JString (RoomID_msg msg)),
                                     (''is_initiator'', JBool isInitiator)],
                     Error_msg = ''''\<rparr>
         in if Panicked s3 then s3
            else notifyPeersInRoom s3 room' peer PeerJoined
                   (JObject [(''peer_id'', JString peer)])))"

text \<open>
  \<^verbatim>\<open>go s.markUserAvailable(peer.ID)\<close> at the end of a successful leave works on Redis
  and over HTTP, outside the broker's state; it is not part of this function.
\<close>

definition handleLeaveRoom :: "SignalingServer \<Rightarrow> string \<Rightarrow> SignalingServer" where
  "handleLeaveRoom s peer =
     (if RoomID (Heap s peer) = '''' then sendError s peer ''Not in a room''
      else case Rooms s (RoomID (Heap s peer)) of
        None \<Rightarrow> sendError s peer ''Room not found''
      | Some room \<Rightarrow>
          (let roomID = ID room;
               room' = room\<lparr>Peers := Peers room |-| {|peer|}\<rparr>;
               s1 = s\<lparr>Rooms := (Rooms s)(RoomID (Heap s peer) \<mapsto> room'),
                       Heap := (Heap s)(peer := (Heap s peer)\<lparr>RoomID := ''''\<rparr>)\<rparr>;
               s2 = sendToPeer s1 peer
                      \<lparr>Type = RoomLeft, RoomID_msg = roomID, PeerID = '''',
                       Data = JObject [(''peer_id'', JString peer), (''room_id'', JString roomID)],
                       Error_msg = ''''\<rparr>
           in if Panicked s2 then s2
              else
                (let s3 = notifyPeersInRoom s2 room' peer PeerLeft
                            (JObject [(''peer_id'', JString peer)])
                 in if Panicked s3 then s3
                    else if fcard (Peers room') = 0
                    then s3\<lparr>Rooms := (Rooms s3)(ID room' := None)\<rparr>
                    else s3)))"

text \<open>
  \<^verbatim>\<open>handleOffer\<close>, \<^verbatim>\<open>handleAnswer\<close> and \<^verbatim>\<open>handleIceCandidate\<close> have the same body up to
  the type tag of the envelope they forward.
\<close>

definition forward ::
  "MessageType \<Rightarrow> SignalingServer \<Rightarrow> string \<Rightarrow> SignalingMessage \<Rightarrow> SignalingServer" where
  "forward msgType s peer msg =
     (if RoomID (Heap s peer) = '''' then sendError s peer ''Not in a room''
      else case Rooms s (RoomID (Heap s peer)) of
        None \<Rightarrow> sendError s peer ''Room not found''
      | Some room \<Rightarrow>
          send_to_others s room peer
            \<lparr>Type = msgType, RoomID_msg = '''', PeerID = peer, Data = Data msg,
             Error_msg = ''''\<rparr>)"

definition handleOffer :: "SignalingServer \<Rightarrow> string \<Rightarrow> SignalingMessage \<Rightarrow> SignalingServer" where
  "handleOffer = forward Offer"

definition handleAnswer :: "SignalingServer \<Rightarrow> string \<Rightarrow> SignalingMessage \<Rightarrow> SignalingServer" where
  "handleAnswer = forward Answer"

definition handleIceCandidate :: "SignalingServer \<Rightarrow> string \<Rightarrow> SignalingMessage \<Rightarrow> SignalingServer" where
  "handleIceCandidate = forward IceCandidate"

definition handleSignalingMessage ::
  "SignalingServer \<Rightarrow> string \<Rightarrow> SignalingMessage \<Rightarrow> SignalingServer" where
  "handleSignalingMessage s peer msg =
     (if Type msg = JoinRoom then handleJoinRoom s peer msg
      else if Type msg = LeaveRoom then handleLeaveRoom s peer
      else if Type msg = Offer then handleOffer s peer msg
      else if Type msg = Answer then handleAnswer s peer msg
      else if Type msg = IceCandidate then handleIceCandidate s peer msg
      else sendError s peer ''Unknown message type'')"

text \<open>
  \<^verbatim>\<open>handlePeerDisconnect\<close>: leave the room the pointer names, if any, then close the
  channel (closing a channel a second time panics as well). Closing the connection is
  not part of the state.
\<close>

definition handlePeerDisconnect :: "SignalingServer \<Rightarrow> string \<Rightarrow> SignalingServer" where
  "handlePeerDisconnect s peer =
     (let s1 = (if RoomID (Heap s peer) \<noteq> '''' then handleLeaveRoom s peer else s) in
      if Panicked s1 then s1
      else if Closed (Heap s1 peer) then s1\<lparr>Panicked := True\<rparr>
      else s1\<lparr>Heap := (Heap s1)(peer := (Heap s1 peer)\<lparr>Closed := True\<rparr>)\<rparr>)"

subsection \<open>Runs of the broker\<close>

text \<open>
  What the connection goroutines do to the broker, one event at a time: the reader of
  a peer decoded an envelope and dispatched it; the reader could not decode a frame;
  the writer (\<^verbatim>\<open>handlePeerSend\<close>) took the oldest message off the peer's channel (it
  waits while the channel is empty); the reader of a peer failed to read and ran the
  deferred \<^verbatim>\<open>handlePeerDisconnect\<close>. After a panic there is no process and no event
  changes anything. In the program the disconnect of a peer is its last event; the lists
  of events here are not restricted that way, so what holds of every list holds of every
  run of the program.
\<close>

datatype event =
    Received string SignalingMessage
  | Unparseable string
  | Written string
  | Disconnected string

fun react :: "SignalingServer \<Rightarrow> event \<Rightarrow> SignalingServer" where
  "react s (Received peer msg) = handleSignalingMessage s peer msg"
| "react s (Unparseable peer) = sendError s peer ''Invalid message format''"
| "react s (Written peer) =
     (case SendChan (Heap s peer) of
        [] \<Rightarrow> s
      | message # rest \<Rightarrow> s\<lparr>Heap := (Heap s)(peer := (Heap s peer)\<lparr>SendChan := rest\<rparr>)\<rparr>)"
| "react s (Disconnected peer) = handlePeerDisconnect s peer"

definition step :: "SignalingServer \<Rightarrow> event \<Rightarrow> SignalingServer" where
  "step s e = (if Panicked s then s else react s e)"

definition run :: "event list \<Rightarrow> SignalingServer \<Rightarrow> SignalingServer" where
  "run evs s = foldl step s evs"

section \<open>Vocabulary of the properties\<close>

subsection \<open>Coordinator\<close>

text \<open>
  Two identifiers are paired in a room: neither is available any more and both room
  pointers name that room.
\<close>

definition paired_in :: "registry \<Rightarrow> string \<Rightarrow> string \<Rightarrow> string \<Rightarrow> bool" where
  "paired_in rdb a b room =
     (a \<notin> available_users rdb \<and> b \<notin> available_users rdb
      \<and> user_room rdb a = Some room \<and> user_room rdb b = Some room)"

text \<open>
  What the scoring loop keeps true of its two variables after it has gone through the
  candidates \<open>seen\<close>: either nothing was chosen yet, or the chosen identifier is one of
  \<open>seen\<close>, is not the requester, has a profile, and its score is the positive
  \<open>bestScore\<close>.
\<close>

definition selected ::
  "(string \<Rightarrow> string) \<Rightarrow> registry \<Rightarrow> string \<Rightarrow> string set \<Rightarrow> string list
     \<Rightarrow> string \<times> int \<Rightarrow> bool" where
  "selected norm rdb requesterID reqTags seen best =
     (case best of (bestID, bestScore) \<Rightarrow>
        (bestID = '''' \<and> bestScore = 0) \<or>
        (0 < bestScore \<and> bestID \<in> set seen \<and> bestID \<noteq> requesterID \<and>
         (\<exists>u. users rdb bestID = Some u
              \<and> intersectionScore reqTags (userTags norm u) = bestScore)))"

subsection \<open>Broker\<close>

text \<open>Envelopes as a client sends them.\<close>

definition join_room :: "string \<Rightarrow> SignalingMessage" where
  "join_room roomID =
     \<lparr>Type = JoinRoom, RoomID_msg = roomID, PeerID = '''', Data = JNull, Error_msg = ''''\<rparr>"

definition leave_room :: SignalingMessage where
  "leave_room =
     \<lparr>Type = LeaveRoom, RoomID_msg = '''', PeerID = '''', Data = JNull, Error_msg = ''''\<rparr>"

definition negotiation :: "MessageType \<Rightarrow> json \<Rightarrow> SignalingMessage" where
  "negotiation msgType payload =
     \<lparr>Type = msgType, RoomID_msg = '''', PeerID = '''', Data = payload, Error_msg = ''''\<rparr>"

text \<open>Envelopes as the broker sends them.\<close>

definition room_joined :: "string \<Rightarrow> string \<Rightarrow> bool \<Rightarrow> SignalingMessage" where
  "room_joined roomID peer isInitiator =
     \<lparr>Type = ''room_joined'', RoomID_msg = roomID, PeerID = '''',
      Data = JObject [(''peer_id'', JString peer), (''room_id'', JString roomID),
                      (''is_initiator'', JBool isInitiator)],
      Error_msg = ''''\<rparr>"

definition room_left :: "string \<Rightarrow> string \<Rightarrow> SignalingMessage" where
  "room_left roomID peer =
     \<lparr>Type = ''room_left'', RoomID_msg = roomID, PeerID = '''',
      Data = JObject [(''peer_id'', JString peer), (''room_id'', JString roomID)],
      Error_msg = ''''\<rparr>"

definition error_envelope :: "string \<Rightarrow> SignalingMessage" where
  "error_envelope errorMsg =
     \<lparr>Type = ''error'', RoomID_msg = '''', PeerID = '''', Data = JNull, Error_msg = errorMsg\<rparr>"

text \<open>\<^verbatim>\<open>len(room.Peers)\<close> of the room a join is about, before the join: an absent room
  is created empty.\<close>

definition peer_count :: "SignalingServer \<Rightarrow> string \<Rightarrow> nat" where
  "peer_count s roomID =
     (case Rooms s roomID of None \<Rightarrow> 0 | Some room \<Rightarrow> fcard (Peers room))"

definition capacity2 :: "SignalingServer \<Rightarrow> bool" where
  "capacity2 s = (\<forall>k room. Rooms s k = Some room \<longrightarrow> fcard (Peers room) \<le> 2)"


text \<open>The events that can take a peer out of a room: a \<^verbatim>\<open>leave_room\<close> envelope and a
  disconnect.\<close>

fun leaves :: "event \<Rightarrow> bool" where
  "leaves (Received peer msg) = (Type msg = LeaveRoom)"
| "leaves (Disconnected peer) = True"
| "leaves (Unparseable peer) = False"
| "leaves (Written peer) = False"

text \<open>
  What a forwarding handler does with an envelope of a peer, in each of its three cases:
  the peer has no room; its room is not in the table; its room is \<open>room\<close>. The last
  case is described for a room in which the channel of every other member is open: each
  of them is sent the forwarded envelope, which enters the member's channel unless that
  is full, and no other peer is touched.
\<close>

definition forwards_as ::
  "(SignalingServer \<Rightarrow> string \<Rightarrow> SignalingMessage \<Rightarrow> SignalingServer) \<Rightarrow> MessageType \<Rightarrow> bool" where
  "forwards_as handler msgType =
     (\<forall>s peer msg.
        (RoomID (Heap s peer) = '''' \<longrightarrow>
           handler s peer msg = sendError s peer ''Not in a room'')
      \<and> (RoomID (Heap s peer) \<noteq> '''' \<and> Rooms s (RoomID (Heap s peer)) = None \<longrightarrow>
           handler s peer msg = sendError s peer ''Room not found'')
      \<and> (\<forall>room. RoomID (Heap s peer) \<noteq> '''' \<and> Rooms s (RoomID (Heap s peer)) = Some room
               \<and> (\<forall>q. q |\<in>| Peers room \<and> q \<noteq> peer \<longrightarrow> \<not> Closed (Heap s q)) \<longrightarrow>
            Rooms (handler s peer msg) = Rooms s
          \<and> Panicked (handler s peer msg) = Panicked s
          \<and> (\<forall>q. q |\<in>| Peers room \<and> q \<noteq> peer \<longrightarrow>
                 RoomID (Heap (handler s peer msg) q) = RoomID (Heap s q)
               \<and> SendLog (Heap (handler s peer msg) q)
                   = SendLog (Heap s q)
                     @ [\<lparr>Type = msgType, RoomID_msg = '''', PeerID = peer, Data = Data msg,
                         Error_msg = ''''\<rparr>]
               \<and> SendChan (Heap (handler s peer msg) q)
                   = (if length (SendChan (Heap s q)) < SendChan_cap
                      then SendChan (Heap s q)
                           @ [\<lparr>Type = msgType, RoomID_msg = '''', PeerID = peer,
                               Data = Data msg, Error_msg = ''''\<rparr>]
                      else SendChan (Heap s q)))
          \<and> (\<forall>q. q |\<notin>| Peers room \<or> q = peer \<longrightarrow>
                 Heap (handler s peer msg) q = Heap s q)))"

section \<open>Example states\<close>

text \<open>Three users wait; then \<open>u3\<close> asks for a random match and is paired with \<open>u1\<close>.\<close>

definition waiting3 :: registry where
  "waiting3 = \<lparr>users = Map.empty, available_users = {''u1'', ''u2'', ''u3''},
                user_room = Map.empty\<rparr>"

definition after_u3 :: registry where
  "after_u3 = snd (match_random ''x'' [''u1'', ''u2'', ''u3''] ''u3'' waiting3)"

definition learner :: "string \<Rightarrow> User" where
  "learner lang = \<lparr>Name = '''', Language = lang, CefrLevel = ''B2'', Age = 30,
     Gender = '''', Interests = [''Chess''], Topics = [], CreatedAt = 0\<rparr>"

definition speaker :: "string \<Rightarrow> User" where
  "speaker lang = \<lparr>Name = '''', Language = lang, CefrLevel = '''', Age = 0,
     Gender = '''', Interests = [], Topics = [], CreatedAt = 0\<rparr>"

definition empty_registry :: registry where
  "empty_registry = \<lparr>users = Map.empty, available_users = {}, user_room = Map.empty\<rparr>"

text \<open>
  \<open>m\<close> and \<open>n\<close> register and a sweep tick pairs them in \<open>room_0\<close>; then \<open>m\<close> submits
  its profile again while its room pointer is still set, which marks it available.
\<close>

definition stale_registry :: registry where
  "stale_registry =
     post_user ''m'' (speaker ''en'')
       (snd (sweep_tick ''0'' [''m'', ''n'']
          (post_user ''n'' (speaker ''en'') (post_user ''m'' (speaker ''en'') empty_registry))))"

text \<open>Two available users with the same tags, and two with no tag in common.\<close>

definition classmates :: registry where
  "classmates = \<lparr>users = [''a'' \<mapsto> learner ''en'', ''b'' \<mapsto> learner ''en''],
      available_users = {''a'', ''b''}, user_room = Map.empty\<rparr>"

definition strangers :: registry where
  "strangers = \<lparr>users = [''a'' \<mapsto> speaker ''en'', ''b'' \<mapsto> speaker ''fr''],
      available_users = {''a'', ''b''}, user_room = Map.empty\<rparr>"

text \<open>
  Broker states: \<open>A\<close> alone in \<open>r1\<close>; \<open>A\<close> and \<open>B\<close> in \<open>r1\<close>; and the latter after
  \<open>B\<close> has sent 99 frames that do not parse while its writer was stalled, so that its
  channel holds 100 messages.
\<close>

definition one_in_room :: SignalingServer where
  "one_in_room = run [Received ''A'' (join_room ''r1'')] NewSignalingServer"

definition two_in_room :: SignalingServer where
  "two_in_room = run [Received ''A'' (join_room ''r1''), Received ''B'' (join_room ''r1'')]
                   NewSignalingServer"

definition backlog :: SignalingServer where
  "backlog = run (replicate 99 (Unparseable ''B'')) two_in_room"

text \<open>
  \<open>B\<close>, in no room, has sent 100 frames that do not parse while its writer was
  stalled.
\<close>

definition flooded :: SignalingServer where
  "flooded = run (replicate 100 (Unparseable ''B'')) NewSignalingServer"


text \<open>
  A peer whose room pointer names a room that is not in the table. No run of the
  sequential model gets there; in the source \<^verbatim>\<open>handleLeaveRoom\<close> tests that the room is
  empty before it takes the table lock to remove it, and a join that slips in between
  leaves its peer like this.
\<close>

definition orphaned :: SignalingServer where
  "orphaned =
     NewSignalingServer\<lparr>Heap := (Heap NewSignalingServer)(''A'' := new_peer\<lparr>RoomID := ''gone''\<rparr>)\<rparr>"

section \<open>Lemmas\<close>

lemmas MessageType_defs =
  JoinRoom_def LeaveRoom_def Offer_def Answer_def IceCandidate_def
  RoomJoined_def RoomLeft_def PeerJoined_def PeerLeft_def Error_def

lemmas registry_eval =
  match_random_def match_similar_def sweep_commit_def sweep_tick_def sweep_validate_def
  srem_def sadd_def sismember_def set_room_def assigned_room_def Let_def

lemmas broker_eval =
  run_def step_def handleSignalingMessage_def handleJoinRoom_def handleLeaveRoom_def
  handlePeerDisconnect_def forward_def
  handleOffer_def handleAnswer_def handleIceCandidate_def sendError_def sendToPeer_def
  send_to_others_def notifyPeersInRoom_def offer_chan_def NewSignalingServer_def
  new_peer_def SendChan_cap_def join_room_def leave_room_def negotiation_def
  room_joined_def room_left_def error_envelope_def MessageType_defs Let_def
  fcard_finsert_if fcard_fempty

subsection \<open>Coordinator\<close>

lemma first_other_neq: "first_other cs r \<noteq> r \<or> first_other cs r = ''''"
  by (induction cs) auto

lemma assigned_room_SomeD:
  "assigned_room rdb u = Some r \<Longrightarrow> user_room rdb u = Some r \<and> r \<noteq> ''''"
  by (auto simp: assigned_room_def split: option.splits if_splits)

lemma random_fresh_pairing:
  assumes "fst (match_random uuid candidates requesterID rdb)
             = Json \<lparr>Matched = True, UserID = matched, RoomID_resp = room, Reason = ''''\<rparr>"
    and "matched \<noteq> ''''" and "assigned_room rdb matched = None"
  shows "paired_in (snd (match_random uuid candidates requesterID rdb)) requesterID matched room"
  using assms
  by (auto simp: match_random_def Let_def paired_in_def srem_def set_room_def
           split: option.splits if_splits)

lemma random_attach_pairing:
  assumes "fst (match_random uuid candidates requesterID rdb)
             = Json \<lparr>Matched = True, UserID = matched, RoomID_resp = room, Reason = ''''\<rparr>"
    and "matched \<noteq> ''''" and "assigned_room rdb matched = Some matchedRoom"
  shows "room = matchedRoom
         \<and> requesterID \<notin> available_users (snd (match_random uuid candidates requesterID rdb))
         \<and> user_room (snd (match_random uuid candidates requesterID rdb)) requesterID = Some room
         \<and> user_room (snd (match_random uuid candidates requesterID rdb)) matched = Some room
         \<and> (matched \<in> available_users (snd (match_random uuid candidates requesterID rdb)))
             = (matched \<in> available_users rdb)"
proof -
  have ne: "first_other candidates requesterID \<noteq> requesterID
            \<or> first_other candidates requesterID = ''''"
    by (rule first_other_neq)
  from assms ne show ?thesis
    by (auto simp: match_random_def Let_def srem_def set_room_def
             dest: assigned_room_SomeD split: option.splits if_splits)
qed

lemma similar_pairing:
  assumes "fst (match_similar norm uuid candidates requesterID rdb)
             = Json \<lparr>Matched = True, UserID = matched, RoomID_resp = room, Reason = ''''\<rparr>"
  shows "requesterID \<notin> available_users (snd (match_similar norm uuid candidates requesterID rdb))
         \<and> matched \<notin> available_users (snd (match_similar norm uuid candidates requesterID rdb))"
  using assms
  by (auto simp: match_similar_def Let_def srem_def split: option.splits if_splits)

lemma sweep_commit_pairing:
  assumes "fst (sweep_commit uuid user1 user2 rdb) = Paired a b room"
  shows "a = user1 \<and> b = user2
         \<and> paired_in (snd (sweep_commit uuid user1 user2 rdb)) user1 user2 room"
proof -
  from assms have two: "card ({user1, user2} \<inter> available_users rdb) = 2"
    by (auto simp: sweep_commit_def Let_def srem_def split: if_splits)
  have "user1 \<noteq> user2"
  proof
    assume "user1 = user2"
    then have "card ({user1, user2} \<inter> available_users rdb) \<le> 1"
      by (cases "user2 \<in> available_users rdb") auto
    with two show False by simp
  qed
  with assms two show ?thesis
    by (auto simp: sweep_commit_def Let_def srem_def set_room_def paired_in_def split: if_splits)
qed

lemma sweep_tick_pairing:
  assumes "fst (sweep_tick uuid candidates rdb) = Paired a b room"
  shows "paired_in (snd (sweep_tick uuid candidates rdb)) a b room"
  using assms sweep_commit_pairing
  by (fastforce simp: sweep_tick_def split: option.splits prod.splits)

lemma best_candidate_keep:
  "\<forall>c \<in> set cs. c \<noteq> requesterID \<longrightarrow>
      (\<forall>u. users rdb c = Some u \<longrightarrow> intersectionScore reqTags (userTags norm u) \<le> bestScore)
   \<Longrightarrow> best_candidate norm rdb requesterID reqTags cs (bestID, bestScore) = (bestID, bestScore)"
  by (induction cs) (auto split: option.splits simp: Let_def)

lemma best_candidate_selected:
  "selected norm rdb requesterID reqTags pre best \<Longrightarrow>
   selected norm rdb requesterID reqTags (pre @ cs)
     (best_candidate norm rdb requesterID reqTags cs best)"
proof (induction cs arbitrary: pre best)
  case Nil
  then show ?case by simp
next
  case (Cons c cs)
  obtain bestID bestScore where b: "best = (bestID, bestScore)" by (cases best)
  have mono: "selected norm rdb requesterID reqTags (pre @ [c]) best"
    using Cons.prems by (auto simp: selected_def b)
  show ?case
  proof (cases "c = requesterID")
    case True
    then show ?thesis using Cons.IH[OF mono] by (simp add: b)
  next
    case False
    show ?thesis
    proof (cases "users rdb c")
      case None
      then show ?thesis using False Cons.IH[OF mono] by (simp add: b)
    next
      case (Some u)
      let ?score = "intersectionScore reqTags (userTags norm u)"
      show ?thesis
      proof (cases "?score > bestScore")
        case True
        have "0 \<le> bestScore" using Cons.prems by (auto simp: selected_def b)
        then have "selected norm rdb requesterID reqTags (pre @ [c]) (c, ?score)"
          using True False Some by (auto simp: selected_def)
        from Cons.IH[OF this] show ?thesis using True False Some by (simp add: b)
      next
        case lower: False
        then show ?thesis using False Some Cons.IH[OF mono] by (simp add: b)
      qed
    qed
  qed
qed

lemma after_u3_eq:
  "after_u3 = \<lparr>users = Map.empty, available_users = {''u2''},
               user_room = [''u3'' \<mapsto> ''room_x'', ''u1'' \<mapsto> ''room_x'']\<rparr>"
  by (auto simp: after_u3_def waiting3_def registry_eval)

lemma learner_tags:
  "userTags (\<lambda>t. t) (learner ''en'')
     = {''lang:en'', ''cefr:B2'', ''interest:Chess'', ''age:26-35''}"
  by (auto simp: userTags_def learner_def)

lemma speaker_tags: "lang \<noteq> '''' \<Longrightarrow> userTags norm (speaker lang) = {''lang:'' @ lang}"
  by (simp add: userTags_def speaker_def)

lemma score_learners:
  "intersectionScore (userTags (\<lambda>t. t) (learner ''en'')) (userTags (\<lambda>t. t) (learner ''en'')) = 4"
  by (simp add: learner_tags intersectionScore_def)

lemma similar_classmates:
  "match_similar (\<lambda>t. t) ''x'' [''a'', ''b''] ''a'' classmates
     = (Json \<lparr>Matched = True, UserID = ''b'', RoomID_resp = ''room_x'', Reason = ''''\<rparr>,
        classmates\<lparr>available_users := {}\<rparr>)"
  by (simp add: classmates_def match_similar_def srem_def score_learners Let_def)

lemma stale_registry_available: "available_users stale_registry = {''m''}"
  by (auto simp: stale_registry_def post_user_def empty_registry_def registry_eval)

lemma stale_registry_rooms:
  "user_room stale_registry = [''m'' \<mapsto> ''room_0'', ''n'' \<mapsto> ''room_0'']"
  by (auto simp: stale_registry_def post_user_def empty_registry_def registry_eval)

lemma random_stale:
  "match_random ''x'' [''m''] ''q'' stale_registry
     = (Json \<lparr>Matched = True, UserID = ''m'', RoomID_resp = ''room_0'', Reason = ''''\<rparr>,
        set_room ''q'' ''room_0'' (snd (srem [''q''] stale_registry)))"
  by (simp add: match_random_def assigned_room_def stale_registry_rooms)

lemma random_waiting3:
  "match_random ''x'' [''u1'', ''u2'', ''u3''] ''u3'' waiting3
     = (Json \<lparr>Matched = True, UserID = ''u1'', RoomID_resp = ''room_x'', Reason = ''''\<rparr>,
        after_u3)"
  by (simp add: after_u3_def) (simp add: waiting3_def registry_eval)

lemma sweep_waiting3:
  "sweep_commit ''y'' ''u1'' ''u2'' waiting3
     = (Paired ''u1'' ''u2'' ''room_y'',
        \<lparr>users = Map.empty, available_users = {''u3''},
         user_room = [''u1'' \<mapsto> ''room_y'', ''u2'' \<mapsto> ''room_y'']\<rparr>)"
  by (auto simp: waiting3_def registry_eval)

lemma sweep_tick_waiting3:
  "sweep_tick ''y'' [''u1'', ''u2'', ''u3''] waiting3 = sweep_commit ''y'' ''u1'' ''u2'' waiting3"
  by (simp add: sweep_tick_def sweep_validate_def sismember_def waiting3_def)

subsection \<open>Broker: what sending touches\<close>

lemma Rooms_sendToPeer [simp]: "Rooms (sendToPeer s p m) = Rooms s"
  by (simp add: sendToPeer_def offer_chan_def Let_def)

lemma Rooms_sendError [simp]: "Rooms (sendError s p e) = Rooms s"
  by (simp add: sendError_def)

lemma Rooms_send_to_others [simp]: "Rooms (send_to_others s room x m) = Rooms s"
  by (simp add: send_to_others_def)

lemma Rooms_notifyPeersInRoom [simp]: "Rooms (notifyPeersInRoom s room x t d) = Rooms s"
  by (simp add: notifyPeersInRoom_def)

lemma Rooms_forward [simp]: "Rooms (forward t s p m) = Rooms s"
  by (simp add: forward_def split: option.splits)

lemma Heap_sendToPeer_other: "q \<noteq> p \<Longrightarrow> Heap (sendToPeer s p m) q = Heap s q"
  by (simp add: sendToPeer_def offer_chan_def Let_def)

lemma RoomID_sendToPeer [simp]: "RoomID (Heap (sendToPeer s p m) q) = RoomID (Heap s q)"
  by (simp add: sendToPeer_def offer_chan_def Let_def)

lemma Closed_sendToPeer [simp]: "Closed (Heap (sendToPeer s p m) q) = Closed (Heap s q)"
  by (simp add: sendToPeer_def offer_chan_def Let_def)

lemma SendLog_sendToPeer:
  "SendLog (Heap (sendToPeer s p m) q)
     = (if q = p then SendLog (Heap s p) @ [m] else SendLog (Heap s q))"
  by (simp add: sendToPeer_def offer_chan_def Let_def)

lemma SendChan_sendToPeer:
  "SendChan (Heap (sendToPeer s p m) q)
     = (if q = p \<and> \<not> Closed (Heap s p) \<and> length (SendChan (Heap s p)) < SendChan_cap
        then SendChan (Heap s p) @ [m] else SendChan (Heap s q))"
  by (simp add: sendToPeer_def offer_chan_def Let_def)

lemma Panicked_sendToPeer: "Panicked (sendToPeer s p m) = (Panicked s \<or> Closed (Heap s p))"
  by (simp add: sendToPeer_def offer_chan_def Let_def)

lemma sendError_eq: "sendError s p e = sendToPeer s p (error_envelope e)"
  by (simp add: sendError_def error_envelope_def Error_def)

lemma Heap_send_to_others_other:
  "q |\<notin>| Peers room \<or> q = x \<Longrightarrow> Heap (send_to_others s room x m) q = Heap s q"
  by (auto simp: send_to_others_def)

lemma RoomID_send_to_others [simp]:
  "RoomID (Heap (send_to_others s room x m) q) = RoomID (Heap s q)"
  by (simp add: send_to_others_def)

lemma Closed_send_to_others [simp]:
  "Closed (Heap (send_to_others s room x m) q) = Closed (Heap s q)"
  by (simp add: send_to_others_def)

lemma Panicked_send_to_others:
  "Panicked (send_to_others s room x m)
     = (Panicked s \<or> (\<exists>q. q |\<in>| Peers room \<and> q \<noteq> x \<and> Closed (Heap s q)))"
  by (auto simp: send_to_others_def)

lemma SendLog_send_to_others:
  "\<forall>q. q |\<in>| Peers room \<and> q \<noteq> x \<longrightarrow> \<not> Closed (Heap s q) \<Longrightarrow>
   SendLog (Heap (send_to_others s room x m) q)
     = (if q |\<in>| Peers room \<and> q \<noteq> x then SendLog (Heap s q) @ [m] else SendLog (Heap s q))"
  by (auto simp: send_to_others_def SendLog_sendToPeer)

lemma SendChan_send_to_others:
  "\<forall>q. q |\<in>| Peers room \<and> q \<noteq> x \<longrightarrow> \<not> Closed (Heap s q) \<Longrightarrow>
   SendChan (Heap (send_to_others s room x m) q)
     = (if q |\<in>| Peers room \<and> q \<noteq> x \<and> length (SendChan (Heap s q)) < SendChan_cap
        then SendChan (Heap s q) @ [m] else SendChan (Heap s q))"
  by (auto simp: send_to_others_def SendChan_sendToPeer)

subsection \<open>Broker: the room table after a join and after a leave\<close>

lemma Rooms_handleJoinRoom:
  "Rooms (handleJoinRoom s p m) =
     (if 2 \<le> peer_count s (RoomID_msg m) then Rooms s
      else (Rooms s)(RoomID_msg m \<mapsto>
             (case Rooms s (RoomID_msg m) of
                None \<Rightarrow> \<lparr>ID = RoomID_msg m, Peers = {|p|}\<rparr>
              | Some room \<Rightarrow> room\<lparr>Peers := finsert p (Peers room)\<rparr>)))"
  by (auto simp: handleJoinRoom_def peer_count_def Let_def fun_upd_idem fcard_fempty
        split: option.splits)

lemma handleJoinRoom_full:
  "2 \<le> peer_count s (RoomID_msg m) \<Longrightarrow> handleJoinRoom s p m = sendError s p ''Room is full''"
  by (auto simp: handleJoinRoom_def peer_count_def Let_def fun_upd_idem fcard_fempty
        split: option.splits)

lemma RoomID_handleJoinRoom_self:
  "peer_count s (RoomID_msg m) < 2 \<Longrightarrow> RoomID (Heap (handleJoinRoom s p m) p) = RoomID_msg m"
  by (auto simp: handleJoinRoom_def peer_count_def Let_def notifyPeersInRoom_def fcard_fempty
        split: option.splits)

lemma SendLog_handleJoinRoom_self:
  "peer_count s (RoomID_msg m) < 2 \<Longrightarrow>
   SendLog (Heap (handleJoinRoom s p m) p)
     = SendLog (Heap s p) @ [room_joined (RoomID_msg m) p (peer_count s (RoomID_msg m) = 0)]"
  by (auto simp: handleJoinRoom_def peer_count_def Let_def notifyPeersInRoom_def fcard_fempty
        Heap_send_to_others_other SendLog_sendToPeer room_joined_def RoomJoined_def
        split: option.splits)

lemma SendChan_handleJoinRoom_self:
  "peer_count s (RoomID_msg m) < 2 \<Longrightarrow>
   SendChan (Heap (handleJoinRoom s p m) p)
     = (if \<not> Closed (Heap s p) \<and> length (SendChan (Heap s p)) < SendChan_cap
        then SendChan (Heap s p)
             @ [room_joined (RoomID_msg m) p (peer_count s (RoomID_msg m) = 0)]
        else SendChan (Heap s p))"
  by (auto simp: handleJoinRoom_def peer_count_def Let_def notifyPeersInRoom_def fcard_fempty
        Heap_send_to_others_other SendChan_sendToPeer room_joined_def RoomJoined_def
        split: option.splits)

lemma Rooms_handleLeaveRoom_cases:
  "Rooms (handleLeaveRoom s p) = Rooms s
   \<or> (\<exists>room. Rooms s (RoomID (Heap s p)) = Some room
        \<and> (Rooms (handleLeaveRoom s p)
             = (Rooms s)(RoomID (Heap s p) \<mapsto> room\<lparr>Peers := Peers room |-| {|p|}\<rparr>)
           \<or> Rooms (handleLeaveRoom s p)
             = ((Rooms s)(RoomID (Heap s p) \<mapsto> room\<lparr>Peers := Peers room |-| {|p|}\<rparr>))
                 (ID room := None)))"
  by (auto simp: handleLeaveRoom_def Let_def split: option.splits)

subsection \<open>Broker: invariants of a run\<close>

lemma capacity2_join: "capacity2 s \<Longrightarrow> capacity2 (handleJoinRoom s p m)"
  unfolding capacity2_def Rooms_handleJoinRoom peer_count_def
  by (auto simp: fcard_finsert_if fcard_fempty split: option.splits if_splits)

lemma capacity2_leave:
  assumes "capacity2 s"
  shows "capacity2 (handleLeaveRoom s p)"
proof -
  have le: "fcard (Peers room |-| {|p|}) \<le> 2" if "Rooms s k = Some room" for k room
    using assms that order_trans[OF fcard_fminus1_le, of "Peers room" 2 p]
    by (auto simp: capacity2_def)
  from Rooms_handleLeaveRoom_cases[of s p] assms le show ?thesis
    unfolding capacity2_def by (auto split: if_splits)
qed

lemma capacity2_disconnect: "capacity2 s \<Longrightarrow> capacity2 (handlePeerDisconnect s p)"
  using capacity2_leave[of s p]
  by (auto simp: handlePeerDisconnect_def Let_def capacity2_def)

lemma capacity2_react: "capacity2 s \<Longrightarrow> capacity2 (react s e)"
proof (cases e)
  case (Received p m)
  assume "capacity2 s"
  then show ?thesis
    using capacity2_join[of s p m] capacity2_leave[of s p]
    by (auto simp: Received handleSignalingMessage_def handleOffer_def handleAnswer_def
          handleIceCandidate_def capacity2_def)
next
  case (Unparseable p)
  assume "capacity2 s"
  then show ?thesis by (simp add: Unparseable capacity2_def)
next
  case (Written p)
  assume "capacity2 s"
  then show ?thesis by (simp add: Written capacity2_def split: list.splits)
next
  case (Disconnected p)
  assume "capacity2 s"
  then show ?thesis by (simp add: Disconnected capacity2_disconnect)
qed

lemma capacity2_step: "capacity2 s \<Longrightarrow> capacity2 (step s e)"
  by (simp add: step_def capacity2_react)

lemma capacity2_run: "capacity2 s \<Longrightarrow> capacity2 (run evs s)"
  unfolding run_def by (induction evs arbitrary: s) (auto intro: capacity2_step)

lemma capacity2_init: "capacity2 NewSignalingServer"
  by (simp add: capacity2_def NewSignalingServer_def)














text \<open>Membership only grows while nobody leaves.\<close>

lemma peer_count_join: "peer_count s r \<le> peer_count (handleJoinRoom s p m) r"
  by (auto simp: Rooms_handleJoinRoom peer_count_def fcard_finsert_if fcard_fempty
        split: option.splits)

lemma peer_count_react: "\<not> leaves e \<Longrightarrow> peer_count s r \<le> peer_count (react s e) r"
proof (cases e)
  case (Received p m)
  assume "\<not> leaves e"
  then show ?thesis
    using peer_count_join[of s r p m]
    by (auto simp: Received handleSignalingMessage_def handleOffer_def handleAnswer_def
          handleIceCandidate_def peer_count_def)
next
  case (Unparseable p)
  then show ?thesis by (simp add: peer_count_def)
next
  case (Written p)
  then show ?thesis by (simp add: peer_count_def split: list.splits)
next
  case (Disconnected p)
  assume "\<not> leaves e"
  then show ?thesis by (simp add: Disconnected)
qed

lemma peer_count_step: "\<not> leaves e \<Longrightarrow> peer_count s r \<le> peer_count (step s e) r"
  by (simp add: step_def peer_count_react)

lemma peer_count_run:
  "\<forall>e \<in> set evs. \<not> leaves e \<Longrightarrow> peer_count s r \<le> peer_count (run evs s) r"
  unfolding run_def
proof (induction evs arbitrary: s)
  case Nil
  then show ?case by simp
next
  case (Cons e evs)
  have "peer_count s r \<le> peer_count (step s e) r"
    using Cons.prems by (simp add: peer_count_step)
  also have "\<dots> \<le> peer_count (foldl step (step s e) evs) r"
    using Cons.prems by (intro Cons.IH) simp
  finally show ?case by simp
qed

lemma fcard_finsert_pos: "0 < fcard (finsert p X)"
  using fcard_0_eq[of "finsert p X"] by (cases "fcard (finsert p X)") simp_all

lemma peer_count_joined:
  "peer_count s (RoomID_msg m) < 2 \<Longrightarrow> 0 < peer_count (handleJoinRoom s p m) (RoomID_msg m)"
  by (auto simp: Rooms_handleJoinRoom peer_count_def fcard_finsert_pos fcard_fempty
        split: option.splits)

subsection \<open>Broker: forwarding\<close>

lemma forwards_as_forward: "forwards_as (forward t) t"
  unfolding forwards_as_def
  by (auto simp: forward_def Heap_send_to_others_other SendLog_send_to_others
        SendChan_send_to_others Panicked_send_to_others)

subsection \<open>Broker: the example states\<close>

lemma one_in_room_A: "RoomID (Heap one_in_room ''A'') = ''r1''"
  by (simp add: one_in_room_def broker_eval)

lemma one_in_room_Rooms: "Rooms one_in_room = [''r1'' \<mapsto> \<lparr>ID = ''r1'', Peers = {|''A''|}\<rparr>]"
  by (simp add: one_in_room_def broker_eval)

lemma one_in_room_B: "Heap one_in_room ''B'' = new_peer"
  by (simp add: one_in_room_def broker_eval)

lemma one_in_room_Panicked: "\<not> Panicked one_in_room"
  by (simp add: one_in_room_def broker_eval)

lemma two_in_room_Rooms:
  "Rooms two_in_room = [''r1'' \<mapsto> \<lparr>ID = ''r1'', Peers = {|''B'', ''A''|}\<rparr>]"
  by (simp add: two_in_room_def broker_eval)

lemma two_in_room_A:
  "Heap two_in_room ''A'' =
     \<lparr>RoomID = ''r1'',
      SendChan = [room_joined ''r1'' ''A'' True,
                  negotiation PeerJoined (JObject [(''peer_id'', JString ''B'')])],
      Closed = False,
      SendLog = [room_joined ''r1'' ''A'' True,
                 negotiation PeerJoined (JObject [(''peer_id'', JString ''B'')])]\<rparr>"
  by (simp add: two_in_room_def broker_eval)

lemma two_in_room_B:
  "Heap two_in_room ''B'' =
     \<lparr>RoomID = ''r1'', SendChan = [room_joined ''r1'' ''B'' False], Closed = False,
      SendLog = [room_joined ''r1'' ''B'' False]\<rparr>"
  by (simp add: two_in_room_def broker_eval)

lemma two_in_room_C: "Heap two_in_room ''C'' = new_peer"
  by (simp add: two_in_room_def broker_eval)

lemma two_in_room_Panicked: "\<not> Panicked two_in_room"
  by (simp add: two_in_room_def broker_eval)

lemma run_Unparseable_Rooms: "Rooms (run (replicate n (Unparseable p)) s) = Rooms s"
  unfolding run_def by (induction n arbitrary: s) (simp_all add: step_def)

lemma run_Unparseable_RoomID:
  "RoomID (Heap (run (replicate n (Unparseable p)) s) q) = RoomID (Heap s q)"
  unfolding run_def by (induction n arbitrary: s) (simp_all add: step_def sendError_def)

lemma run_Unparseable_Closed:
  "Closed (Heap (run (replicate n (Unparseable p)) s) q) = Closed (Heap s q)"
  unfolding run_def by (induction n arbitrary: s) (simp_all add: step_def sendError_def)

lemma run_Unparseable_Panicked:
  "\<not> Panicked s \<Longrightarrow> \<not> Closed (Heap s p)
   \<Longrightarrow> \<not> Panicked (run (replicate n (Unparseable p)) s)"
  unfolding run_def
  by (induction n arbitrary: s) (simp_all add: step_def sendError_def Panicked_sendToPeer)

lemma run_Unparseable_SendChan:
  "\<not> Panicked s \<Longrightarrow> \<not> Closed (Heap s p)
   \<Longrightarrow> length (SendChan (Heap s p)) + n \<le> SendChan_cap \<Longrightarrow>
   SendChan (Heap (run (replicate n (Unparseable p)) s) p)
     = SendChan (Heap s p) @ replicate n (error_envelope ''Invalid message format'')"
  unfolding run_def
proof (induction n arbitrary: s)
  case 0
  then show ?case by simp
next
  case (Suc n)
  let ?s1 = "sendError s p ''Invalid message format''"
  have len: "SendChan (Heap ?s1 p)
               = SendChan (Heap s p) @ [error_envelope ''Invalid message format'']"
    using Suc.prems by (simp add: sendError_eq SendChan_sendToPeer)
  then have a: "length (SendChan (Heap ?s1 p)) + n \<le> SendChan_cap"
    using Suc.prems by simp
  have b: "\<not> Panicked ?s1" "\<not> Closed (Heap ?s1 p)"
    using Suc.prems by (simp_all add: sendError_def Panicked_sendToPeer)
  from Suc.IH[OF b a] Suc.prems(1) show ?case
    by (simp add: len replicate_app_Cons_same step_def)
qed

lemma backlog_A: "RoomID (Heap backlog ''A'') = ''r1''"
  by (simp add: backlog_def run_Unparseable_RoomID two_in_room_A)

lemma backlog_Rooms: "Rooms backlog = [''r1'' \<mapsto> \<lparr>ID = ''r1'', Peers = {|''B'', ''A''|}\<rparr>]"
  by (simp add: backlog_def run_Unparseable_Rooms two_in_room_Rooms)

lemma backlog_B:
  "SendChan (Heap backlog ''B'')
     = room_joined ''r1'' ''B'' False # replicate 99 (error_envelope ''Invalid message format'')"
  unfolding backlog_def
  by (subst run_Unparseable_SendChan)
     (simp_all add: two_in_room_B two_in_room_Panicked SendChan_cap_def)

lemma two_in_room_open: "\<not> Closed (Heap two_in_room q)"
  by (simp add: two_in_room_def broker_eval)

lemma backlog_open: "\<not> Closed (Heap backlog q)"
  by (simp add: backlog_def run_Unparseable_Closed two_in_room_open)

lemma backlog_Panicked: "\<not> Panicked backlog"
  unfolding backlog_def
  by (rule run_Unparseable_Panicked) (simp_all add: two_in_room_Panicked two_in_room_B)

lemma flooded_Rooms: "Rooms flooded = Map.empty"
  by (simp add: flooded_def run_Unparseable_Rooms NewSignalingServer_def)

lemma flooded_B:
  "SendChan (Heap flooded ''B'') = replicate 100 (error_envelope ''Invalid message format'')"
  unfolding flooded_def
  by (subst run_Unparseable_SendChan)
     (simp_all add: NewSignalingServer_def new_peer_def SendChan_cap_def)

lemma flooded_open: "\<not> Closed (Heap flooded q)"
  by (simp add: flooded_def run_Unparseable_Closed NewSignalingServer_def new_peer_def)

lemma flooded_Panicked: "\<not> Panicked flooded"
  unfolding flooded_def
  by (rule run_Unparseable_Panicked) (simp_all add: NewSignalingServer_def new_peer_def)




section \<open>Claims about the matchmaking coordinator\<close>

text \<open>
  C1, as amended. A pairing that completes leaves the registry as follows.
  \<^item> Random match, the chosen candidate had no room: a fresh room is minted, neither
    identifier is available afterwards and both room pointers name the fresh room.
  \<^item> Random match, the chosen candidate already had a room: the requester is attached to
    that room. The requester is not available afterwards and both room pointers name
    the candidate's room; whether the candidate is in the availability set is left as it
    was.
  \<^item> Similarity match: neither identifier is available afterwards.
  \<^item> Sweep (its commit phase in any registry, and a whole tick): neither identifier is
    available afterwards and both room pointers name the fresh room.
\<close>

theorem pairing_postcondition:
  "(fst (match_random uuid candidates requesterID rdb)
        = Json \<lparr>Matched = True, UserID = matched, RoomID_resp = room, Reason = ''''\<rparr>
      \<and> matched \<noteq> '''' \<and> assigned_room rdb matched = None
    \<longrightarrow> paired_in (snd (match_random uuid candidates requesterID rdb)) requesterID matched room)
   \<and> (fst (match_random uuid candidates requesterID rdb)
        = Json \<lparr>Matched = True, UserID = matched, RoomID_resp = room, Reason = ''''\<rparr>
      \<and> matched \<noteq> '''' \<and> assigned_room rdb matched = Some matchedRoom
    \<longrightarrow> room = matchedRoom
        \<and> requesterID \<notin> available_users (snd (match_random uuid candidates requesterID rdb))
        \<and> user_room (snd (match_random uuid candidates requesterID rdb)) requesterID = Some room
        \<and> user_room (snd (match_random uuid candidates requesterID rdb)) matched = Some room
        \<and> (matched \<in> available_users (snd (match_random uuid candidates requesterID rdb)))
            = (matched \<in> available_users rdb))
   \<and> (fst (match_similar norm uuid candidates requesterID rdb)
        = Json \<lparr>Matched = True, UserID = matched, RoomID_resp = room, Reason = ''''\<rparr>
    \<longrightarrow> requesterID \<notin> available_users (snd (match_similar norm uuid candidates requesterID rdb))
        \<and> matched \<notin> available_users (snd (match_similar norm uuid candidates requesterID rdb)))
   \<and> (fst (sweep_commit uuid user1 user2 rdb) = Paired a b room
    \<longrightarrow> a = user1 \<and> b = user2
        \<and> paired_in (snd (sweep_commit uuid user1 user2 rdb)) user1 user2 room)
   \<and> (fst (sweep_tick uuid candidates rdb) = Paired a b room
    \<longrightarrow> paired_in (snd (sweep_tick uuid candidates rdb)) a b room)"
proof (intro conjI impI)
  assume h: "fst (match_random uuid candidates requesterID rdb)
        = Json \<lparr>Matched = True, UserID = matched, RoomID_resp = room, Reason = ''''\<rparr>
      \<and> matched \<noteq> '''' \<and> assigned_room rdb matched = None"
  show "paired_in (snd (match_random uuid candidates requesterID rdb)) requesterID matched room"
    by (rule random_fresh_pairing) (simp_all add: h)
next
  assume h: "fst (match_random uuid candidates requesterID rdb)
        = Json \<lparr>Matched = True, UserID = matched, RoomID_resp = room, Reason = ''''\<rparr>
      \<and> matched \<noteq> '''' \<and> assigned_room rdb matched = Some matchedRoom"
  then have a: "fst (match_random uuid candidates requesterID rdb)
        = Json \<lparr>Matched = True, UserID = matched, RoomID_resp = room, Reason = ''''\<rparr>"
    and b: "matched \<noteq> ''''" and c: "assigned_room rdb matched = Some matchedRoom"
    by simp_all
  note r = random_attach_pairing[OF a b c]
  show "room = matchedRoom" using r by (rule conjunct1)
  show "requesterID \<notin> available_users (snd (match_random uuid candidates requesterID rdb))"
    using r by blast
  show "user_room (snd (match_random uuid candidates requesterID rdb)) requesterID = Some room"
    using r by blast
  show "user_room (snd (match_random uuid candidates requesterID rdb)) matched = Some room"
    using r by blast
  show "(matched \<in> available_users (snd (match_random uuid candidates requesterID rdb)))
            = (matched \<in> available_users rdb)"
    using r by blast
next
  assume h: "fst (match_similar norm uuid candidates requesterID rdb)
        = Json \<lparr>Matched = True, UserID = matched, RoomID_resp = room, Reason = ''''\<rparr>"
  note r = similar_pairing[OF h]
  show "requesterID \<notin> available_users (snd (match_similar norm uuid candidates requesterID rdb))"
    using r by (rule conjunct1)
  show "matched \<notin> available_users (snd (match_similar norm uuid candidates requesterID rdb))"
    using r by (rule conjunct2)
next
  assume h: "fst (sweep_commit uuid user1 user2 rdb) = Paired a b room"
  note r = sweep_commit_pairing[OF h]
  show "a = user1" using r by blast
  show "b = user2" using r by blast
  show "paired_in (snd (sweep_commit uuid user1 user2 rdb)) user1 user2 room" using r by blast
next
  assume h: "fst (sweep_tick uuid candidates rdb) = Paired a b room"
  then show "paired_in (snd (sweep_tick uuid candidates rdb)) a b room"
    by (rule sweep_tick_pairing)
qed

text \<open>
  Against C1 as stated. In \<open>stale_registry\<close> the random match pairs \<open>q\<close> with \<open>m\<close>,
  which already has a room, and \<open>m\<close> is still available afterwards; among \<open>classmates\<close> the similarity match pairs
  \<open>a\<close> with \<open>b\<close> and neither has a room pointer afterwards.
\<close>

theorem pairing_counterexample:
  "fst (match_random ''x'' [''m''] ''q'' stale_registry)
     = Json \<lparr>Matched = True, UserID = ''m'', RoomID_resp = ''room_0'', Reason = ''''\<rparr>
   \<and> ''m'' \<in> available_users (snd (match_random ''x'' [''m''] ''q'' stale_registry))
   \<and> fst (match_similar (\<lambda>t. t) ''x'' [''a'', ''b''] ''a'' classmates)
     = Json \<lparr>Matched = True, UserID = ''b'', RoomID_resp = ''room_x'', Reason = ''''\<rparr>
   \<and> user_room (snd (match_similar (\<lambda>t. t) ''x'' [''a'', ''b''] ''a'' classmates)) ''a'' = None
   \<and> user_room (snd (match_similar (\<lambda>t. t) ''x'' [''a'', ''b''] ''a'' classmates)) ''b'' = None"
proof -
  have r: "''m'' \<in> available_users (snd (match_random ''x'' [''m''] ''q'' stale_registry))"
    by (simp add: random_stale set_room_def srem_def stale_registry_available)
  have u: "user_room classmates = Map.empty"
    by (simp add: classmates_def)
  show ?thesis
    using r by (simp add: random_stale similar_classmates u)
qed

theorem pairing_postcondition_witness:
  "assigned_room waiting3 ''u1'' = None
   \<and> paired_in (snd (match_random ''x'' [''u1'', ''u2'', ''u3''] ''u3'' waiting3))
       ''u3'' ''u1'' ''room_x''
   \<and> assigned_room stale_registry ''m'' = Some ''room_0''
   \<and> ''q'' \<notin> available_users (snd (match_random ''x'' [''m''] ''q'' stale_registry))
   \<and> user_room (snd (match_random ''x'' [''m''] ''q'' stale_registry)) ''q'' = Some ''room_0''
   \<and> user_room (snd (match_random ''x'' [''m''] ''q'' stale_registry)) ''m'' = Some ''room_0''
   \<and> ''a'' \<notin> available_users (snd (match_similar (\<lambda>t. t) ''x'' [''a'', ''b''] ''a'' classmates))
   \<and> ''b'' \<notin> available_users (snd (match_similar (\<lambda>t. t) ''x'' [''a'', ''b''] ''a'' classmates))
   \<and> paired_in (snd (sweep_commit ''y'' ''u1'' ''u2'' waiting3)) ''u1'' ''u2'' ''room_y''
   \<and> paired_in (snd (sweep_tick ''y'' [''u1'', ''u2'', ''u3''] waiting3)) ''u1'' ''u2'' ''room_y''"
proof -
  have n1: "assigned_room waiting3 ''u1'' = None"
    by (simp add: assigned_room_def waiting3_def)
  have n2: "assigned_room stale_registry ''m'' = Some ''room_0''"
    by (simp add: assigned_room_def stale_registry_rooms)
  have r1: "fst (match_random ''x'' [''u1'', ''u2'', ''u3''] ''u3'' waiting3)
              = Json \<lparr>Matched = True, UserID = ''u1'', RoomID_resp = ''room_x'', Reason = ''''\<rparr>
            \<and> ''u1'' \<noteq> '''' \<and> assigned_room waiting3 ''u1'' = None"
    by (simp add: random_waiting3 n1)
  have r2: "fst (match_random ''x'' [''m''] ''q'' stale_registry)
              = Json \<lparr>Matched = True, UserID = ''m'', RoomID_resp = ''room_0'', Reason = ''''\<rparr>
            \<and> ''m'' \<noteq> '''' \<and> assigned_room stale_registry ''m'' = Some ''room_0''"
    by (simp add: random_stale n2)
  have r3: "fst (match_similar (\<lambda>t. t) ''x'' [''a'', ''b''] ''a'' classmates)
              = Json \<lparr>Matched = True, UserID = ''b'', RoomID_resp = ''room_x'', Reason = ''''\<rparr>"
    by (simp add: similar_classmates)
  have r4: "fst (sweep_commit ''y'' ''u1'' ''u2'' waiting3) = Paired ''u1'' ''u2'' ''room_y''"
    by (simp add: sweep_waiting3)
  have r5: "fst (sweep_tick ''y'' [''u1'', ''u2'', ''u3''] waiting3)
              = Paired ''u1'' ''u2'' ''room_y''"
    by (simp add: sweep_tick_waiting3 sweep_waiting3)
  have w1: "paired_in (snd (match_random ''x'' [''u1'', ''u2'', ''u3''] ''u3'' waiting3))
              ''u3'' ''u1'' ''room_x''"
    by (rule pairing_postcondition[THEN conjunct1, THEN mp]) (rule r1)
  have w2: "''room_0'' = ''room_0''
          \<and> ''q'' \<notin> available_users (snd (match_random ''x'' [''m''] ''q'' stale_registry))
          \<and> user_room (snd (match_random ''x'' [''m''] ''q'' stale_registry)) ''q'' = Some ''room_0''
          \<and> user_room (snd (match_random ''x'' [''m''] ''q'' stale_registry)) ''m'' = Some ''room_0''
          \<and> (''m'' \<in> available_users (snd (match_random ''x'' [''m''] ''q'' stale_registry)))
              = (''m'' \<in> available_users stale_registry)"
    by (rule pairing_postcondition[THEN conjunct2, THEN conjunct1, THEN mp]) (rule r2)
  have w3: "''a'' \<notin> available_users (snd (match_similar (\<lambda>t. t) ''x'' [''a'', ''b''] ''a'' classmates))
          \<and> ''b'' \<notin> available_users (snd (match_similar (\<lambda>t. t) ''x'' [''a'', ''b''] ''a'' classmates))"
    by (rule pairing_postcondition[THEN conjunct2, THEN conjunct2, THEN conjunct1, THEN mp])
       (rule r3)
  have w4: "''u1'' = ''u1'' \<and> ''u2'' = ''u2''
          \<and> paired_in (snd (sweep_commit ''y'' ''u1'' ''u2'' waiting3)) ''u1'' ''u2'' ''room_y''"
    by (rule pairing_postcondition[THEN conjunct2, THEN conjunct2, THEN conjunct2,
                THEN conjunct1, THEN mp]) (rule r4)
  have w5: "paired_in (snd (sweep_tick ''y'' [''u1'', ''u2'', ''u3''] waiting3))
              ''u1'' ''u2'' ''room_y''"
    by (rule pairing_postcondition[THEN conjunct2, THEN conjunct2, THEN conjunct2,
                THEN conjunct2, THEN mp]) (rule r5)
  from n1 n2 w1 w2 w3 w4 w5 show ?thesis by blast
qed

text \<open>
  C5. What the sweep does when its \<^verbatim>\<open>SREM\<close> of the two identifiers removed exactly one:
  the registry loses both identifiers from the availability set and gets \<open>user1\<close> back,
  whichever of the two the sweep had removed; no room pointer is read or written. The
  claim asks for the identifier without a room pointer to be put back. When \<open>user1\<close>
  was the one another pairing had taken, the sweep puts back \<open>user1\<close>, which has a
  room, and leaves \<open>user2\<close> in neither the availability set nor the room map.
\<close>

theorem sweep_short_removal:
  assumes "fst (srem [user1, user2] rdb) = 1"
  shows "fst (sweep_commit uuid user1 user2 rdb) = RemovalShort 1
       \<and> available_users (snd (sweep_commit uuid user1 user2 rdb))
           = insert user1 (available_users rdb - {user1, user2})
       \<and> user_room (snd (sweep_commit uuid user1 user2 rdb)) = user_room rdb"
  using assms by (simp add: sweep_commit_def Let_def srem_def sismember_def sadd_def)

text \<open>
  The failing run: \<open>u1\<close>, \<open>u2\<close>, \<open>u3\<close> wait; the sweep reads them and finds \<open>u1\<close> and
  \<open>u2\<close> still available; before its \<^verbatim>\<open>SREM\<close>, a random match for \<open>u3\<close> pairs \<open>u3\<close>
  with \<open>u1\<close>. The sweep then removes one identifier, puts \<open>u1\<close> back, and \<open>u2\<close> is
  stranded.
\<close>

theorem sweep_short_removal_witness:
  "sweep_validate [''u1'', ''u2'', ''u3''] waiting3 = Some (''u1'', ''u2'')
   \<and> fst (srem [''u1'', ''u2''] after_u3) = 1
   \<and> ''u2'' \<notin> available_users (snd (sweep_commit ''y'' ''u1'' ''u2'' after_u3))
   \<and> user_room (snd (sweep_commit ''y'' ''u1'' ''u2'' after_u3)) ''u2'' = None
   \<and> ''u1'' \<in> available_users (snd (sweep_commit ''y'' ''u1'' ''u2'' after_u3))
   \<and> user_room (snd (sweep_commit ''y'' ''u1'' ''u2'' after_u3)) ''u1'' = Some ''room_x''"
proof -
  have v: "sweep_validate [''u1'', ''u2'', ''u3''] waiting3 = Some (''u1'', ''u2'')"
    by (simp add: sweep_validate_def sismember_def waiting3_def)
  have r: "fst (srem [''u1'', ''u2''] after_u3) = 1"
    by (simp add: after_u3_eq srem_def)
  from sweep_short_removal[OF r, of "''y''"] v r show ?thesis
    by (simp add: after_u3_eq)
qed

text \<open>
  C6. For a requester with a non-empty identifier that has a room assignment, the random
  match answers with that room, whatever the candidates and whatever identifier a fresh
  room would get, and leaves the registry as it is; so a second call, on the registry
  the first one left, answers the same.
\<close>

theorem match_random_idempotent:
  assumes "requesterID \<noteq> ''''" and "assigned_room rdb requesterID = Some room"
  shows "match_random uuid candidates requesterID rdb
           = (Json \<lparr>Matched = True, UserID = '''', RoomID_resp = room, Reason = ''''\<rparr>, rdb)
         \<and> match_random uuid' candidates' requesterID
               (snd (match_random uuid candidates requesterID rdb))
           = (Json \<lparr>Matched = True, UserID = '''', RoomID_resp = room, Reason = ''''\<rparr>, rdb)"
  using assms by (simp add: match_random_def)

theorem match_random_idempotent_witness:
  "assigned_room after_u3 ''u3'' = Some ''room_x''
   \<and> match_random ''y'' [''u2''] ''u3'' after_u3
       = (Json \<lparr>Matched = True, UserID = '''', RoomID_resp = ''room_x'', Reason = ''''\<rparr>, after_u3)
   \<and> match_random ''z'' [] ''u3'' (snd (match_random ''y'' [''u2''] ''u3'' after_u3))
       = (Json \<lparr>Matched = True, UserID = '''', RoomID_resp = ''room_x'', Reason = ''''\<rparr>, after_u3)"
proof -
  have n: "''u3'' \<noteq> ''''" by simp
  have a: "assigned_room after_u3 ''u3'' = Some ''room_x''"
    by (simp add: after_u3_eq assigned_room_def)
  from match_random_idempotent[OF n a, of "''y''" "[''u2'']" "''z''" "[]"] a
  show ?thesis by blast
qed

text \<open>
  C10. For a requester with a non-empty identifier and a profile: when the similarity
  match answers with a candidate, that candidate is one of the candidates read, is not
  the requester, has a profile, and its tag set meets the requester's in at least one
  tag; and when the requester's tag set meets no other candidate's, the answer is
  "no similar users available" and the registry, the availability set included, is
  as before.
\<close>

theorem match_similar_needs_positive_score:
  assumes "requesterID \<noteq> ''''" and "users rdb requesterID = Some reqUser"
  shows "(\<forall>bestID roomID.
            fst (match_similar norm uuid candidates requesterID rdb)
              = Json \<lparr>Matched = True, UserID = bestID, RoomID_resp = roomID, Reason = ''''\<rparr>
            \<longrightarrow> bestID \<in> set candidates \<and> bestID \<noteq> requesterID \<and>
                (\<exists>u. users rdb bestID = Some u \<and>
                   0 < intersectionScore (userTags norm reqUser) (userTags norm u)))
       \<and> ((\<forall>c \<in> set candidates. c \<noteq> requesterID \<longrightarrow>
             (\<forall>u. users rdb c = Some u \<longrightarrow> userTags norm reqUser \<inter> userTags norm u = {}))
          \<longrightarrow> match_similar norm uuid candidates requesterID rdb
              = (Json \<lparr>Matched = False, UserID = '''', RoomID_resp = '''',
                       Reason = ''no similar users available''\<rparr>, rdb))"
proof (intro conjI impI)
  have "selected norm rdb requesterID (userTags norm reqUser) ([] @ candidates)
          (best_candidate norm rdb requesterID (userTags norm reqUser) candidates ('''', 0))"
    by (rule best_candidate_selected) (simp add: selected_def)
  then show "\<forall>bestID roomID.
            fst (match_similar norm uuid candidates requesterID rdb)
              = Json \<lparr>Matched = True, UserID = bestID, RoomID_resp = roomID, Reason = ''''\<rparr>
            \<longrightarrow> bestID \<in> set candidates \<and> bestID \<noteq> requesterID \<and>
                (\<exists>u. users rdb bestID = Some u \<and>
                   0 < intersectionScore (userTags norm reqUser) (userTags norm u))"
    using assms
    by (auto simp: match_similar_def selected_def Let_def split: prod.splits if_splits)
next
  assume "\<forall>c \<in> set candidates. c \<noteq> requesterID \<longrightarrow>
            (\<forall>u. users rdb c = Some u \<longrightarrow> userTags norm reqUser \<inter> userTags norm u = {})"
  then have "best_candidate norm rdb requesterID (userTags norm reqUser) candidates ('''', 0)
               = ('''', 0)"
    by (intro best_candidate_keep) (auto simp: intersectionScore_def)
  then show "match_similar norm uuid candidates requesterID rdb
              = (Json \<lparr>Matched = False, UserID = '''', RoomID_resp = '''',
                       Reason = ''no similar users available''\<rparr>, rdb)"
    using assms by (simp add: match_similar_def)
qed

theorem match_similar_needs_positive_score_witness:
  "users strangers ''a'' = Some (speaker ''en'')
   \<and> userTags (\<lambda>t. t) (speaker ''en'') \<inter> userTags (\<lambda>t. t) (speaker ''fr'') = {}
   \<and> ''b'' \<in> available_users strangers
   \<and> match_similar (\<lambda>t. t) ''x'' [''a'', ''b''] ''a'' strangers
       = (Json \<lparr>Matched = False, UserID = '''', RoomID_resp = '''',
                Reason = ''no similar users available''\<rparr>, strangers)
   \<and> fst (match_similar (\<lambda>t. t) ''x'' [''a'', ''b''] ''a'' classmates)
       = Json \<lparr>Matched = True, UserID = ''b'', RoomID_resp = ''room_x'', Reason = ''''\<rparr>
   \<and> 0 < intersectionScore (userTags (\<lambda>t. t) (learner ''en'')) (userTags (\<lambda>t. t) (learner ''en''))"
proof -
  have n: "''a'' \<noteq> ''''" by simp
  have u: "users strangers ''a'' = Some (speaker ''en'')" by (simp add: strangers_def)
  have d: "userTags (\<lambda>t. t) (speaker ''en'') \<inter> userTags (\<lambda>t. t) (speaker ''fr'') = {}"
    by (simp add: speaker_tags)
  have h: "\<forall>c \<in> set [''a'', ''b'']. c \<noteq> ''a'' \<longrightarrow>
             (\<forall>u. users strangers c = Some u \<longrightarrow>
                userTags (\<lambda>t. t) (speaker ''en'') \<inter> userTags (\<lambda>t. t) u = {})"
    using d by (simp add: strangers_def)
  have c: "users classmates ''a'' = Some (learner ''en'')" by (simp add: classmates_def)
  have m: "fst (match_similar (\<lambda>t. t) ''x'' [''a'', ''b''] ''a'' classmates)
       = Json \<lparr>Matched = True, UserID = ''b'', RoomID_resp = ''room_x'', Reason = ''''\<rparr>"
    by (simp add: classmates_def registry_eval learner_tags intersectionScore_def)
  from match_similar_needs_positive_score[OF n u, of "\<lambda>t. t" "''x''" "[''a'', ''b'']"] h
  have w1: "match_similar (\<lambda>t. t) ''x'' [''a'', ''b''] ''a'' strangers
       = (Json \<lparr>Matched = False, UserID = '''', RoomID_resp = '''',
                Reason = ''no similar users available''\<rparr>, strangers)"
    by blast
  from match_similar_needs_positive_score[OF n c, of "\<lambda>t. t" "''x''" "[''a'', ''b'']"] m
  have "\<exists>u. users classmates ''b'' = Some u \<and>
          0 < intersectionScore (userTags (\<lambda>t. t) (learner ''en'')) (userTags (\<lambda>t. t) u)"
    by blast
  then have w2: "0 < intersectionScore (userTags (\<lambda>t. t) (learner ''en''))
                     (userTags (\<lambda>t. t) (learner ''en''))"
    by (simp add: classmates_def)
  from u d w1 m w2 show ?thesis by (simp add: strangers_def)
qed

section \<open>Claims about the signaling broker\<close>

text \<open>
  C2. No room ever holds more than two peers: the bound survives every run of the broker
  from a state that has it, in particular every run from the initial state, whatever
  joins, leaves and other envelopes the run is made of. A join that finds two (or more)
  members does nothing but send the error "Room is full" to the joiner: the room table
  and every peer's room pointer are as before.
\<close>

theorem room_capacity:
  "(capacity2 s \<longrightarrow> capacity2 (run evs s))
   \<and> capacity2 (run evs NewSignalingServer)
   \<and> (2 \<le> peer_count s (RoomID_msg msg) \<longrightarrow>
        handleJoinRoom s peer msg = sendError s peer ''Room is full''
        \<and> Rooms (handleJoinRoom s peer msg) = Rooms s
        \<and> (\<forall>q. RoomID (Heap (handleJoinRoom s peer msg) q) = RoomID (Heap s q))
        \<and> SendLog (Heap (handleJoinRoom s peer msg) peer)
            = SendLog (Heap s peer) @ [error_envelope ''Room is full''])"
proof (intro conjI impI)
  show "capacity2 (run evs s)" if "capacity2 s"
    using that by (rule capacity2_run)
  show "capacity2 (run evs NewSignalingServer)"
    by (rule capacity2_run) (rule capacity2_init)
next
  assume full: "2 \<le> peer_count s (RoomID_msg msg)"
  then show eq: "handleJoinRoom s peer msg = sendError s peer ''Room is full''"
    by (rule handleJoinRoom_full)
  show "Rooms (handleJoinRoom s peer msg) = Rooms s"
    by (simp add: eq)
  show "\<forall>q. RoomID (Heap (handleJoinRoom s peer msg) q) = RoomID (Heap s q)"
    by (simp add: eq sendError_eq)
  show "SendLog (Heap (handleJoinRoom s peer msg) peer)
            = SendLog (Heap s peer) @ [error_envelope ''Room is full'']"
    by (simp add: eq sendError_eq SendLog_sendToPeer)
qed

theorem room_capacity_witness:
  "capacity2 two_in_room
   \<and> peer_count two_in_room ''r1'' = 2
   \<and> capacity2 (run [Received ''C'' (join_room ''r1'')] two_in_room)
   \<and> Rooms (handleJoinRoom two_in_room ''C'' (join_room ''r1'')) = Rooms two_in_room
   \<and> SendLog (Heap (handleJoinRoom two_in_room ''C'' (join_room ''r1'')) ''C'')
       = [error_envelope ''Room is full'']"
proof -
  have c: "capacity2 two_in_room"
    by (simp add: capacity2_def two_in_room_Rooms fcard_finsert_if fcard_fempty)
  have n: "peer_count two_in_room ''r1'' = 2"
    by (simp add: peer_count_def two_in_room_Rooms fcard_finsert_if fcard_fempty)
  then have f: "2 \<le> peer_count two_in_room (RoomID_msg (join_room ''r1''))"
    by (simp add: join_room_def)
  note t = room_capacity[of two_in_room "[Received ''C'' (join_room ''r1'')]"
                            "join_room ''r1''" "''C''"]
  from t c have c': "capacity2 (run [Received ''C'' (join_room ''r1'')] two_in_room)"
    by blast
  from t f have r: "Rooms (handleJoinRoom two_in_room ''C'' (join_room ''r1'')) = Rooms two_in_room"
    by blast
  from t f have "SendLog (Heap (handleJoinRoom two_in_room ''C'' (join_room ''r1'')) ''C'')
       = SendLog (Heap two_in_room ''C'') @ [error_envelope ''Room is full'']"
    by blast
  then have l: "SendLog (Heap (handleJoinRoom two_in_room ''C'' (join_room ''r1'')) ''C'')
       = [error_envelope ''Room is full'']"
    by (simp add: two_in_room_C new_peer_def)
  from c n c' r l show ?thesis by blast
qed

text \<open>
  C3, as amended. A join that succeeds (the room has fewer than two members) sends the
  joiner one \<^verbatim>\<open>room_joined\<close> envelope, whose \<^verbatim>\<open>is_initiator\<close> is
  (membership count before the insert = 0); on the joiner's open channel the envelope is
  appended when the channel has room and dropped when it is full. After the join the
  room has a member, and while no peer leaves or disconnects it keeps one: every later
  join to that room that succeeds is sent \<^verbatim>\<open>is_initiator\<close> false.
\<close>

theorem initiator_rule:
  "peer_count s (RoomID_msg msg) < 2 \<longrightarrow>
     SendLog (Heap (handleJoinRoom s peer msg) peer)
       = SendLog (Heap s peer)
         @ [\<lparr>Type = ''room_joined'', RoomID_msg = RoomID_msg msg, PeerID = '''',
             Data = JObject [(''peer_id'', JString peer),
                             (''room_id'', JString (RoomID_msg msg)),
                             (''is_initiator'', JBool (peer_count s (RoomID_msg msg) = 0))],
             Error_msg = ''''\<rparr>]
     \<and> (\<not> Closed (Heap s peer) \<longrightarrow>
          SendChan (Heap (handleJoinRoom s peer msg) peer)
            = (if length (SendChan (Heap s peer)) < SendChan_cap
               then SendChan (Heap s peer)
                    @ [\<lparr>Type = ''room_joined'', RoomID_msg = RoomID_msg msg, PeerID = '''',
                        Data = JObject [(''peer_id'', JString peer),
                                        (''room_id'', JString (RoomID_msg msg)),
                                        (''is_initiator'',
                                         JBool (peer_count s (RoomID_msg msg) = 0))],
                        Error_msg = ''''\<rparr>]
               else SendChan (Heap s peer)))
     \<and> 0 < peer_count (handleJoinRoom s peer msg) (RoomID_msg msg)
     \<and> ((\<forall>e \<in> set evs. \<not> leaves e) \<and> RoomID_msg later = RoomID_msg msg
          \<and> peer_count (run evs (handleJoinRoom s peer msg)) (RoomID_msg msg) < 2 \<longrightarrow>
          SendLog (Heap (handleJoinRoom (run evs (handleJoinRoom s peer msg)) other later) other)
            = SendLog (Heap (run evs (handleJoinRoom s peer msg)) other)
              @ [\<lparr>Type = ''room_joined'', RoomID_msg = RoomID_msg msg, PeerID = '''',
                  Data = JObject [(''peer_id'', JString other),
                                  (''room_id'', JString (RoomID_msg msg)),
                                  (''is_initiator'', JBool False)],
                  Error_msg = ''''\<rparr>])"
proof (intro impI conjI)
  assume lt: "peer_count s (RoomID_msg msg) < 2"
  show "SendLog (Heap (handleJoinRoom s peer msg) peer)
       = SendLog (Heap s peer)
         @ [\<lparr>Type = ''room_joined'', RoomID_msg = RoomID_msg msg, PeerID = '''',
             Data = JObject [(''peer_id'', JString peer),
                             (''room_id'', JString (RoomID_msg msg)),
                             (''is_initiator'', JBool (peer_count s (RoomID_msg msg) = 0))],
             Error_msg = ''''\<rparr>]"
    by (simp add: SendLog_handleJoinRoom_self[OF lt] room_joined_def)
  show "SendChan (Heap (handleJoinRoom s peer msg) peer)
            = (if length (SendChan (Heap s peer)) < SendChan_cap
               then SendChan (Heap s peer)
                    @ [\<lparr>Type = ''room_joined'', RoomID_msg = RoomID_msg msg, PeerID = '''',
                        Data = JObject [(''peer_id'', JString peer),
                                        (''room_id'', JString (RoomID_msg msg)),
                                        (''is_initiator'',
                                         JBool (peer_count s (RoomID_msg msg) = 0))],
                        Error_msg = ''''\<rparr>]
               else SendChan (Heap s peer))"
    if "\<not> Closed (Heap s peer)"
    using that by (simp add: SendChan_handleJoinRoom_self[OF lt] room_joined_def)
  show pos: "0 < peer_count (handleJoinRoom s peer msg) (RoomID_msg msg)"
    using lt by (rule peer_count_joined)
  show "SendLog (Heap (handleJoinRoom (run evs (handleJoinRoom s peer msg)) other later) other)
            = SendLog (Heap (run evs (handleJoinRoom s peer msg)) other)
              @ [\<lparr>Type = ''room_joined'', RoomID_msg = RoomID_msg msg, PeerID = '''',
                  Data = JObject [(''peer_id'', JString other),
                                  (''room_id'', JString (RoomID_msg msg)),
                                  (''is_initiator'', JBool False)],
                  Error_msg = ''''\<rparr>]"
    if h: "(\<forall>e \<in> set evs. \<not> leaves e) \<and> RoomID_msg later = RoomID_msg msg
          \<and> peer_count (run evs (handleJoinRoom s peer msg)) (RoomID_msg msg) < 2"
  proof -
    let ?s = "run evs (handleJoinRoom s peer msg)"
    from h have quiet: "\<forall>e \<in> set evs. \<not> leaves e"
      and same: "RoomID_msg later = RoomID_msg msg"
      and lt': "peer_count ?s (RoomID_msg later) < 2"
      by simp_all
    have "peer_count (handleJoinRoom s peer msg) (RoomID_msg msg)
            \<le> peer_count ?s (RoomID_msg msg)"
      using quiet by (rule peer_count_run)
    with pos have "peer_count ?s (RoomID_msg later) \<noteq> 0"
      by (simp add: same)
    then show ?thesis
      by (simp add: SendLog_handleJoinRoom_self[OF lt'] room_joined_def same)
  qed
qed

text \<open>
  Against C3 as stated. \<open>A\<close> joins \<open>r1\<close> and is sent \<^verbatim>\<open>is_initiator\<close> true; \<open>A\<close> leaves;
  then \<open>B\<close> joins \<open>r1\<close>, after \<open>A\<close>, and is sent \<^verbatim>\<open>is_initiator\<close> true as well. And in
  \<open>flooded\<close>, where the open channel of \<open>B\<close> holds 100 messages, \<open>B\<close> joins the empty
  \<open>r1\<close>: the join succeeds, and the channel of \<open>B\<close> is as before, with no
  \<^verbatim>\<open>room_joined\<close> in it.
\<close>

theorem initiator_counterexample:
  "SendLog (Heap (run [Received ''A'' (join_room ''r1''), Received ''A'' leave_room,
                      Received ''B'' (join_room ''r1'')] NewSignalingServer) ''A'')
     = [room_joined ''r1'' ''A'' True, room_left ''r1'' ''A'']
   \<and> SendLog (Heap (run [Received ''A'' (join_room ''r1''), Received ''A'' leave_room,
                        Received ''B'' (join_room ''r1'')] NewSignalingServer) ''B'')
     = [room_joined ''r1'' ''B'' True]
   \<and> \<not> Closed (Heap flooded ''B'') \<and> \<not> Panicked flooded
   \<and> peer_count flooded ''r1'' = 0
   \<and> Rooms (handleJoinRoom flooded ''B'' (join_room ''r1'')) ''r1''
       = Some \<lparr>ID = ''r1'', Peers = {|''B''|}\<rparr>
   \<and> RoomID (Heap (handleJoinRoom flooded ''B'' (join_room ''r1'')) ''B'') = ''r1''
   \<and> SendChan (Heap (handleJoinRoom flooded ''B'' (join_room ''r1'')) ''B'')
       = replicate 100 (error_envelope ''Invalid message format'')
   \<and> room_joined ''r1'' ''B'' True
       \<notin> set (SendChan (Heap (handleJoinRoom flooded ''B'' (join_room ''r1'')) ''B''))"
proof -
  have a: "SendLog (Heap (run [Received ''A'' (join_room ''r1''), Received ''A'' leave_room,
                      Received ''B'' (join_room ''r1'')] NewSignalingServer) ''A'')
     = [room_joined ''r1'' ''A'' True, room_left ''r1'' ''A'']"
    by (simp add: broker_eval)
  have b: "SendLog (Heap (run [Received ''A'' (join_room ''r1''), Received ''A'' leave_room,
                        Received ''B'' (join_room ''r1'')] NewSignalingServer) ''B'')
     = [room_joined ''r1'' ''B'' True]"
    by (simp add: broker_eval)
  have n: "peer_count flooded ''r1'' = 0"
    by (simp add: peer_count_def flooded_Rooms)
  then have lt: "peer_count flooded (RoomID_msg (join_room ''r1'')) < 2"
    by (simp add: join_room_def)
  have r: "Rooms (handleJoinRoom flooded ''B'' (join_room ''r1'')) ''r1''
       = Some \<lparr>ID = ''r1'', Peers = {|''B''|}\<rparr>"
    using n by (simp add: Rooms_handleJoinRoom flooded_Rooms join_room_def)
  have p: "RoomID (Heap (handleJoinRoom flooded ''B'' (join_room ''r1'')) ''B'') = ''r1''"
    by (simp add: RoomID_handleJoinRoom_self[OF lt]) (simp add: join_room_def)
  have c: "SendChan (Heap (handleJoinRoom flooded ''B'' (join_room ''r1'')) ''B'')
       = replicate 100 (error_envelope ''Invalid message format'')"
    by (simp add: SendChan_handleJoinRoom_self[OF lt] flooded_B SendChan_cap_def)
  have d: "room_joined ''r1'' ''B'' True
       \<notin> set (replicate 100 (error_envelope ''Invalid message format''))"
    by (simp add: room_joined_def error_envelope_def)
  from a b n r p c d flooded_open[of "''B''"] flooded_Panicked show ?thesis
    by simp
qed

theorem initiator_rule_witness:
  "peer_count NewSignalingServer ''r1'' < 2
   \<and> \<not> Closed (Heap NewSignalingServer ''A'')
   \<and> SendChan (Heap (handleJoinRoom NewSignalingServer ''A'' (join_room ''r1'')) ''A'')
       = [\<lparr>Type = ''room_joined'', RoomID_msg = ''r1'', PeerID = '''',
           Data = JObject [(''peer_id'', JString ''A''), (''room_id'', JString ''r1''),
                           (''is_initiator'', JBool True)],
           Error_msg = ''''\<rparr>]
   \<and> \<not> leaves (Unparseable ''B'')
   \<and> peer_count (run [Unparseable ''B''] (handleJoinRoom NewSignalingServer ''A'' (join_room ''r1'')))
        ''r1'' < 2
   \<and> SendLog (Heap (handleJoinRoom
                     (run [Unparseable ''B''] (handleJoinRoom NewSignalingServer ''A'' (join_room ''r1'')))
                     ''B'' (join_room ''r1'')) ''B'')
       = [error_envelope ''Invalid message format'',
          \<lparr>Type = ''room_joined'', RoomID_msg = ''r1'', PeerID = '''',
           Data = JObject [(''peer_id'', JString ''B''), (''room_id'', JString ''r1''),
                           (''is_initiator'', JBool False)],
           Error_msg = ''''\<rparr>]"
proof -
  let ?j = "handleJoinRoom NewSignalingServer ''A'' (join_room ''r1'')"
  have m: "RoomID_msg (join_room ''r1'') = ''r1''" by (simp add: join_room_def)
  have a: "peer_count NewSignalingServer ''r1'' = 0"
    by (simp add: peer_count_def NewSignalingServer_def)
  then have a': "peer_count NewSignalingServer (RoomID_msg (join_room ''r1'')) < 2"
    by (simp add: m)
  have o: "\<not> Closed (Heap NewSignalingServer ''A'')"
    and h: "SendChan (Heap NewSignalingServer ''A'') = []"
    by (simp_all add: NewSignalingServer_def new_peer_def)
  have q: "\<forall>e \<in> set [Unparseable ''B'']. \<not> leaves e" by simp
  have b: "peer_count (run [Unparseable ''B''] ?j) ''r1'' = 1"
    by (simp add: peer_count_def broker_eval)
  then have b': "peer_count (run [Unparseable ''B''] ?j) (RoomID_msg (join_room ''r1'')) < 2"
    by (simp add: m)
  have l: "SendLog (Heap (run [Unparseable ''B''] ?j) ''B'')
             = [error_envelope ''Invalid message format'']"
    by (simp add: broker_eval)
  note t = initiator_rule[of NewSignalingServer "join_room ''r1''" "''A''"
                             "[Unparseable ''B'']" "join_room ''r1''" "''B''"]
  from t a' o
  have "SendChan (Heap ?j ''A'')
            = (if length (SendChan (Heap NewSignalingServer ''A'')) < SendChan_cap
               then SendChan (Heap NewSignalingServer ''A'')
                    @ [\<lparr>Type = ''room_joined'', RoomID_msg = RoomID_msg (join_room ''r1''),
                        PeerID = '''',
                        Data = JObject [(''peer_id'', JString ''A''),
                                        (''room_id'', JString (RoomID_msg (join_room ''r1''))),
                                        (''is_initiator'',
                                         JBool (peer_count NewSignalingServer
                                                  (RoomID_msg (join_room ''r1'')) = 0))],
                        Error_msg = ''''\<rparr>]
               else SendChan (Heap NewSignalingServer ''A''))"
    by blast
  then have c: "SendChan (Heap ?j ''A'')
       = [\<lparr>Type = ''room_joined'', RoomID_msg = ''r1'', PeerID = '''',
           Data = JObject [(''peer_id'', JString ''A''), (''room_id'', JString ''r1''),
                           (''is_initiator'', JBool True)],
           Error_msg = ''''\<rparr>]"
    by (simp add: h m a SendChan_cap_def)
  from t a' q b'
  have "SendLog (Heap (handleJoinRoom (run [Unparseable ''B''] ?j) ''B'' (join_room ''r1'')) ''B'')
            = SendLog (Heap (run [Unparseable ''B''] ?j) ''B'')
              @ [\<lparr>Type = ''room_joined'', RoomID_msg = RoomID_msg (join_room ''r1''),
                  PeerID = '''',
                  Data = JObject [(''peer_id'', JString ''B''),
                                  (''room_id'', JString (RoomID_msg (join_room ''r1''))),
                                  (''is_initiator'', JBool False)],
                  Error_msg = ''''\<rparr>]"
    by blast
  then have d: "SendLog (Heap (handleJoinRoom (run [Unparseable ''B''] ?j) ''B'' (join_room ''r1'')) ''B'')
       = [error_envelope ''Invalid message format'',
          \<lparr>Type = ''room_joined'', RoomID_msg = ''r1'', PeerID = '''',
           Data = JObject [(''peer_id'', JString ''B''), (''room_id'', JString ''r1''),
                           (''is_initiator'', JBool False)],
           Error_msg = ''''\<rparr>]"
    by (simp add: l m)
  from a o c b d show ?thesis by simp
qed

text \<open>
  C4, as amended. The broker has no "already in a room" error. A join from a peer that
  is a member of a room is handled like any other join: it is answered with
  "Room is full" when the room asked for has two members, and otherwise it succeeds.
  Then the peer's room pointer names the new room, the peer is a member of it and is
  sent \<^verbatim>\<open>room_joined\<close>; when the new room differs from the old one, the old room is
  unchanged, so the peer is still a member of it.
\<close>

theorem join_while_in_room:
  assumes "RoomID (Heap s peer) \<noteq> ''''"
    and "Rooms s (RoomID (Heap s peer)) = Some old" and "peer |\<in>| Peers old"
  shows "(2 \<le> peer_count s (RoomID_msg msg) \<longrightarrow>
            handleJoinRoom s peer msg = sendError s peer ''Room is full'')
       \<and> (peer_count s (RoomID_msg msg) < 2 \<longrightarrow>
            RoomID (Heap (handleJoinRoom s peer msg) peer) = RoomID_msg msg
          \<and> (\<exists>room. Rooms (handleJoinRoom s peer msg) (RoomID_msg msg) = Some room
                \<and> peer |\<in>| Peers room)
          \<and> SendLog (Heap (handleJoinRoom s peer msg) peer)
              = SendLog (Heap s peer)
                @ [room_joined (RoomID_msg msg) peer (peer_count s (RoomID_msg msg) = 0)]
          \<and> (RoomID (Heap s peer) \<noteq> RoomID_msg msg \<longrightarrow>
                Rooms (handleJoinRoom s peer msg) (RoomID (Heap s peer)) = Some old))"
proof (intro conjI impI)
  assume "2 \<le> peer_count s (RoomID_msg msg)"
  then show "handleJoinRoom s peer msg = sendError s peer ''Room is full''"
    by (rule handleJoinRoom_full)
next
  assume lt: "peer_count s (RoomID_msg msg) < 2"
  show "RoomID (Heap (handleJoinRoom s peer msg) peer) = RoomID_msg msg"
    by (rule RoomID_handleJoinRoom_self[OF lt])
  show "\<exists>room. Rooms (handleJoinRoom s peer msg) (RoomID_msg msg) = Some room
          \<and> peer |\<in>| Peers room"
    using lt by (simp add: Rooms_handleJoinRoom split: option.splits)
  show "SendLog (Heap (handleJoinRoom s peer msg) peer)
              = SendLog (Heap s peer)
                @ [room_joined (RoomID_msg msg) peer (peer_count s (RoomID_msg msg) = 0)]"
    by (rule SendLog_handleJoinRoom_self[OF lt])
  show "Rooms (handleJoinRoom s peer msg) (RoomID (Heap s peer)) = Some old"
    if "RoomID (Heap s peer) \<noteq> RoomID_msg msg"
    using lt that assms(2) by (simp add: Rooms_handleJoinRoom)
qed

text \<open>
  Against C4 as stated: \<open>A\<close>, a member of \<open>r1\<close>, asks to join \<open>r2\<close>. The join succeeds;
  \<open>A\<close> is then a member of both rooms, and the two envelopes it was ever sent are the
  two \<^verbatim>\<open>room_joined\<close>, no error.
\<close>

theorem join_while_in_room_counterexample:
  "RoomID (Heap one_in_room ''A'') = ''r1''
   \<and> Rooms one_in_room ''r1'' = Some \<lparr>ID = ''r1'', Peers = {|''A''|}\<rparr>
   \<and> Rooms (handleJoinRoom one_in_room ''A'' (join_room ''r2'')) ''r2''
       = Some \<lparr>ID = ''r2'', Peers = {|''A''|}\<rparr>
   \<and> Rooms (handleJoinRoom one_in_room ''A'' (join_room ''r2'')) ''r1''
       = Some \<lparr>ID = ''r1'', Peers = {|''A''|}\<rparr>
   \<and> RoomID (Heap (handleJoinRoom one_in_room ''A'' (join_room ''r2'')) ''A'') = ''r2''
   \<and> SendLog (Heap (handleJoinRoom one_in_room ''A'' (join_room ''r2'')) ''A'')
       = [room_joined ''r1'' ''A'' True, room_joined ''r2'' ''A'' True]"
  by (simp add: one_in_room_def broker_eval)

theorem join_while_in_room_witness:
  "RoomID (Heap one_in_room ''A'') \<noteq> ''''
   \<and> Rooms one_in_room (RoomID (Heap one_in_room ''A'')) = Some \<lparr>ID = ''r1'', Peers = {|''A''|}\<rparr>
   \<and> peer_count one_in_room ''r2'' < 2
   \<and> RoomID (Heap (handleJoinRoom one_in_room ''A'' (join_room ''r2'')) ''A'') = ''r2''
   \<and> Rooms (handleJoinRoom one_in_room ''A'' (join_room ''r2'')) ''r1''
       = Some \<lparr>ID = ''r1'', Peers = {|''A''|}\<rparr>
   \<and> 2 \<le> peer_count two_in_room ''r1''
   \<and> handleJoinRoom two_in_room ''A'' (join_room ''r1'')
       = sendError two_in_room ''A'' ''Room is full''"
proof -
  have a: "RoomID (Heap one_in_room ''A'') \<noteq> ''''" by (simp add: one_in_room_A)
  have b: "Rooms one_in_room (RoomID (Heap one_in_room ''A''))
             = Some \<lparr>ID = ''r1'', Peers = {|''A''|}\<rparr>"
    by (simp add: one_in_room_A one_in_room_Rooms)
  have c: "''A'' |\<in>| Peers \<lparr>ID = ''r1'', Peers = {|''A''|}\<rparr>" by simp
  have d: "peer_count one_in_room (RoomID_msg (join_room ''r2'')) < 2"
    by (simp add: peer_count_def one_in_room_Rooms join_room_def)
  have a2: "RoomID (Heap two_in_room ''A'') \<noteq> ''''" by (simp add: two_in_room_A)
  have b2: "Rooms two_in_room (RoomID (Heap two_in_room ''A''))
             = Some \<lparr>ID = ''r1'', Peers = {|''B'', ''A''|}\<rparr>"
    by (simp add: two_in_room_A two_in_room_Rooms)
  have c2: "''A'' |\<in>| Peers \<lparr>ID = ''r1'', Peers = {|''B'', ''A''|}\<rparr>" by simp
  have d2: "2 \<le> peer_count two_in_room (RoomID_msg (join_room ''r1''))"
    by (simp add: peer_count_def two_in_room_Rooms join_room_def fcard_finsert_if fcard_fempty)
  note j = join_while_in_room[OF a b c, of "join_room ''r2''"]
  from j d have p: "RoomID (Heap (handleJoinRoom one_in_room ''A'' (join_room ''r2'')) ''A'')
                      = RoomID_msg (join_room ''r2'')"
    by blast
  have ne: "RoomID (Heap one_in_room ''A'') \<noteq> RoomID_msg (join_room ''r2'')"
    by (simp add: one_in_room_A join_room_def)
  from j d ne
  have q: "Rooms (handleJoinRoom one_in_room ''A'' (join_room ''r2'')) (RoomID (Heap one_in_room ''A''))
             = Some \<lparr>ID = ''r1'', Peers = {|''A''|}\<rparr>"
    by blast
  from join_while_in_room[OF a2 b2 c2, of "join_room ''r1''"] d2
  have f: "handleJoinRoom two_in_room ''A'' (join_room ''r1'')
             = sendError two_in_room ''A'' ''Room is full''"
    by blast
  from a b d p q d2 f show ?thesis
    by (simp add: join_room_def one_in_room_A)
qed

text \<open>
  C7, as amended. \<^verbatim>\<open>handleOffer\<close>, \<^verbatim>\<open>handleAnswer\<close> and \<^verbatim>\<open>handleIceCandidate\<close>
  each do the following with an envelope of peer \<open>A\<close> whose payload the broker decoded
  as \<open>X\<close>. If \<open>A\<close> has no room, \<open>A\<close> is sent the error "Not in a room"; if the room
  \<open>A\<close> points to is not in the table, the error "Room not found"; nothing else happens.
  Otherwise, when the channel of every other member of that room is open, each of them
  is sent one envelope of the same type with \<^verbatim>\<open>peer_id\<close> \<open>A\<close> and data \<open>X\<close>: it is
  appended to the member's channel when the channel has room and dropped when the
  channel is full. The room table, \<open>A\<close> itself and every peer outside the room are
  untouched.
\<close>

theorem forward_delivery:
  "forwards_as handleOffer Offer
   \<and> forwards_as handleAnswer Answer
   \<and> forwards_as handleIceCandidate IceCandidate"
  by (simp add: handleOffer_def handleAnswer_def handleIceCandidate_def forwards_as_forward)

text \<open>
  Against C7 as stated: in \<open>backlog\<close>, \<open>A\<close> and \<open>B\<close> are the members of \<open>r1\<close>, every
  channel is open and the channel of \<open>B\<close> holds 100 messages. \<open>A\<close> sends an offer with
  payload \<open>X\<close>; the channel of \<open>B\<close> is the same afterwards and the offer is not in it.
\<close>

theorem forward_dropped_counterexample:
  "RoomID (Heap backlog ''A'') = ''r1''
   \<and> Rooms backlog ''r1'' = Some \<lparr>ID = ''r1'', Peers = {|''B'', ''A''|}\<rparr>
   \<and> \<not> Closed (Heap backlog ''B'') \<and> \<not> Panicked backlog
   \<and> length (SendChan (Heap backlog ''B'')) = 100
   \<and> SendChan (Heap (handleOffer backlog ''A'' (negotiation Offer (JString ''X''))) ''B'')
       = SendChan (Heap backlog ''B'')
   \<and> \<lparr>Type = ''offer'', RoomID_msg = '''', PeerID = ''A'', Data = JString ''X'',
        Error_msg = ''''\<rparr>
       \<notin> set (SendChan (Heap (handleOffer backlog ''A'' (negotiation Offer (JString ''X''))) ''B''))"
proof -
  have L: "length (SendChan (Heap backlog ''B'')) = 100"
    by (simp add: backlog_B)
  have S: "SendChan (Heap (handleOffer backlog ''A'' (negotiation Offer (JString ''X''))) ''B'')
       = SendChan (Heap backlog ''B'')"
    by (simp add: handleOffer_def forward_def backlog_A backlog_Rooms SendChan_send_to_others
          backlog_open L SendChan_cap_def)
  have N: "\<lparr>Type = ''offer'', RoomID_msg = '''', PeerID = ''A'', Data = JString ''X'',
        Error_msg = ''''\<rparr> \<notin> set (SendChan (Heap backlog ''B''))"
    by (simp add: backlog_B room_joined_def error_envelope_def)
  show ?thesis using L S N backlog_open[of "''B''"] backlog_Panicked
    by (simp add: backlog_A backlog_Rooms)
qed

theorem forward_delivery_witness:
  "RoomID (Heap two_in_room ''A'') = ''r1''
   \<and> Rooms two_in_room ''r1'' = Some \<lparr>ID = ''r1'', Peers = {|''B'', ''A''|}\<rparr>
   \<and> \<not> Closed (Heap two_in_room ''B'')
   \<and> SendChan (Heap (handleOffer two_in_room ''A'' (negotiation Offer (JString ''X''))) ''B'')
       = [room_joined ''r1'' ''B'' False,
          \<lparr>Type = ''offer'', RoomID_msg = '''', PeerID = ''A'', Data = JString ''X'',
           Error_msg = ''''\<rparr>]
   \<and> Heap (handleOffer two_in_room ''A'' (negotiation Offer (JString ''X''))) ''C''
       = Heap two_in_room ''C''
   \<and> RoomID (Heap NewSignalingServer ''A'') = ''''
   \<and> handleAnswer NewSignalingServer ''A'' (negotiation Answer (JString ''X''))
       = sendError NewSignalingServer ''A'' ''Not in a room''
   \<and> RoomID (Heap orphaned ''A'') = ''gone'' \<and> Rooms orphaned ''gone'' = None
   \<and> handleIceCandidate orphaned ''A'' (negotiation IceCandidate (JString ''X''))
       = sendError orphaned ''A'' ''Room not found''"
proof -
  have a: "RoomID (Heap two_in_room ''A'') = ''r1''" by (simp add: two_in_room_A)
  have r: "Rooms two_in_room ''r1'' = Some \<lparr>ID = ''r1'', Peers = {|''B'', ''A''|}\<rparr>"
    by (simp add: two_in_room_Rooms)
  have op: "\<forall>q. q |\<in>| Peers \<lparr>ID = ''r1'', Peers = {|''B'', ''A''|}\<rparr> \<and> q \<noteq> ''A''
               \<longrightarrow> \<not> Closed (Heap two_in_room q)"
    by (simp add: two_in_room_open)
  have n: "RoomID (Heap NewSignalingServer ''A'') = ''''"
    by (simp add: NewSignalingServer_def new_peer_def)
  have g: "RoomID (Heap orphaned ''A'') = ''gone''" and t: "Rooms orphaned ''gone'' = None"
    by (simp_all add: orphaned_def NewSignalingServer_def)
  from forward_delivery have o: "forwards_as handleOffer Offer"
    and w: "forwards_as handleAnswer Answer"
    and i: "forwards_as handleIceCandidate IceCandidate" by simp_all
  have pre: "RoomID (Heap two_in_room ''A'') \<noteq> ''''
      \<and> Rooms two_in_room (RoomID (Heap two_in_room ''A''))
          = Some \<lparr>ID = ''r1'', Peers = {|''B'', ''A''|}\<rparr>
      \<and> (\<forall>q. q |\<in>| Peers \<lparr>ID = ''r1'', Peers = {|''B'', ''A''|}\<rparr> \<and> q \<noteq> ''A''
               \<longrightarrow> \<not> Closed (Heap two_in_room q))"
    using a r op by simp
  note d = o[unfolded forwards_as_def, THEN spec, THEN spec, THEN spec, THEN conjunct2,
             THEN conjunct2, THEN spec, THEN mp, OF pre]
  from d
  have b: "SendChan (Heap (handleOffer two_in_room ''A'' (negotiation Offer (JString ''X''))) ''B'')
       = [room_joined ''r1'' ''B'' False,
          \<lparr>Type = ''offer'', RoomID_msg = '''', PeerID = ''A'', Data = JString ''X'',
           Error_msg = ''''\<rparr>]"
    by (simp add: two_in_room_B negotiation_def SendChan_cap_def Offer_def)
  from d
  have c: "Heap (handleOffer two_in_room ''A'' (negotiation Offer (JString ''X''))) ''C''
       = Heap two_in_room ''C''"
    by simp
  from w n
  have e: "handleAnswer NewSignalingServer ''A'' (negotiation Answer (JString ''X''))
       = sendError NewSignalingServer ''A'' ''Not in a room''"
    unfolding forwards_as_def by simp
  from i g t
  have f: "handleIceCandidate orphaned ''A'' (negotiation IceCandidate (JString ''X''))
       = sendError orphaned ''A'' ''Room not found''"
    unfolding forwards_as_def by simp
  from a r b c n e g t f two_in_room_open[of "''B''"] show ?thesis by blast
qed

text \<open>
  C8. A \<^verbatim>\<open>leave_room\<close> envelope from a peer whose room pointer is empty is answered
  with exactly one envelope, the error "Not in a room", sent to that peer (on the peer's
  open channel it enters the channel unless that is full). The room table with every
  membership, every peer's room pointer, and every other peer are as before. The
  channel of a peer is closed by its own reader only, when the reader is done, so it is
  open whenever the reader handles an envelope; what the handler would do on a closed
  one is stated all the same.
\<close>

theorem leave_when_unassigned:
  assumes "RoomID (Heap s peer) = ''''" and "Type msg = LeaveRoom"
  shows "handleSignalingMessage s peer msg = sendError s peer ''Not in a room''
     \<and> Rooms (handleSignalingMessage s peer msg) = Rooms s
     \<and> (\<forall>q. RoomID (Heap (handleSignalingMessage s peer msg) q) = RoomID (Heap s q))
     \<and> (\<forall>q. q \<noteq> peer \<longrightarrow> Heap (handleSignalingMessage s peer msg) q = Heap s q)
     \<and> SendLog (Heap (handleSignalingMessage s peer msg) peer)
         = SendLog (Heap s peer) @ [error_envelope ''Not in a room'']
     \<and> SendChan (Heap (handleSignalingMessage s peer msg) peer)
         = (if \<not> Closed (Heap s peer) \<and> length (SendChan (Heap s peer)) < SendChan_cap
            then SendChan (Heap s peer) @ [error_envelope ''Not in a room'']
            else SendChan (Heap s peer))
     \<and> (\<forall>q. Closed (Heap (handleSignalingMessage s peer msg) q) = Closed (Heap s q))
     \<and> Panicked (handleSignalingMessage s peer msg) = (Panicked s \<or> Closed (Heap s peer))"
proof -
  have eq: "handleSignalingMessage s peer msg = sendToPeer s peer (error_envelope ''Not in a room'')"
    using assms
    by (simp add: handleSignalingMessage_def handleLeaveRoom_def MessageType_defs sendError_eq)
  show ?thesis
    unfolding eq
    by (simp add: sendError_eq Heap_sendToPeer_other SendLog_sendToPeer SendChan_sendToPeer
          Panicked_sendToPeer)
qed

theorem leave_when_unassigned_witness:
  "RoomID (Heap one_in_room ''B'') = ''''
   \<and> Rooms (handleSignalingMessage one_in_room ''B'' leave_room) = Rooms one_in_room
   \<and> Heap (handleSignalingMessage one_in_room ''B'' leave_room) ''A'' = Heap one_in_room ''A''
   \<and> RoomID (Heap (handleSignalingMessage one_in_room ''B'' leave_room) ''B'') = ''''
   \<and> SendChan (Heap (handleSignalingMessage one_in_room ''B'' leave_room) ''B'')
       = [error_envelope ''Not in a room'']
   \<and> \<not> Panicked (handleSignalingMessage one_in_room ''B'' leave_room)"
proof -
  have h: "Heap one_in_room ''B'' = new_peer"
    by (rule one_in_room_B)
  then have a: "RoomID (Heap one_in_room ''B'') = ''''"
    by (simp add: new_peer_def)
  have t: "Type leave_room = LeaveRoom" by (simp add: leave_room_def)
  note l = leave_when_unassigned[OF a t]
  from l have r: "Rooms (handleSignalingMessage one_in_room ''B'' leave_room) = Rooms one_in_room"
    by blast
  from l have "\<forall>q. q \<noteq> ''B'' \<longrightarrow>
      Heap (handleSignalingMessage one_in_room ''B'' leave_room) q = Heap one_in_room q"
    by blast
  then have o: "Heap (handleSignalingMessage one_in_room ''B'' leave_room) ''A''
                  = Heap one_in_room ''A''"
    by simp
  from l have "\<forall>q. RoomID (Heap (handleSignalingMessage one_in_room ''B'' leave_room) q)
                  = RoomID (Heap one_in_room q)"
    by blast
  then have p: "RoomID (Heap (handleSignalingMessage one_in_room ''B'' leave_room) ''B'') = ''''"
    using a by simp
  from l have "SendChan (Heap (handleSignalingMessage one_in_room ''B'' leave_room) ''B'')
         = (if \<not> Closed (Heap one_in_room ''B'')
               \<and> length (SendChan (Heap one_in_room ''B'')) < SendChan_cap
            then SendChan (Heap one_in_room ''B'') @ [error_envelope ''Not in a room'']
            else SendChan (Heap one_in_room ''B''))"
    by blast
  then have q: "SendChan (Heap (handleSignalingMessage one_in_room ''B'' leave_room) ''B'')
       = [error_envelope ''Not in a room'']"
    by (simp add: h new_peer_def SendChan_cap_def)
  from l have "Panicked (handleSignalingMessage one_in_room ''B'' leave_room)
                 = (Panicked one_in_room \<or> Closed (Heap one_in_room ''B''))"
    by blast
  then have k: "\<not> Panicked (handleSignalingMessage one_in_room ''B'' leave_room)"
    by (simp add: h new_peer_def one_in_room_Panicked)
  from a r o p q k show ?thesis by blast
qed



end
